theory Spec2Isabelle
  imports Complex_Main
begin

section \<open>Resilient execution: exponential backoff, circuit breaker, retry mechanism\<close>

text \<open>
  A shallow embedding of the classes \<open>RetryError\<close>, \<open>ExponentialBackoffRetry\<close>,
  \<open>CircuitBreaker\<close> and \<open>RetryMechanism\<close>.

  An \<open>async\<close> function is a state transformer that returns either the thrown error
  (\<open>Inl\<close>) or the value (\<open>Inr\<close>). What an operation throws is an \<open>Error\<close> object, a
  value with a message: an operation that throws \<open>undefined\<close> or \<open>null\<close>, on which
  reading \<open>error.message\<close> itself throws, is outside this model. One \<open>execute\<close> runs
  to its end before the next one starts, except where two overlapping calls are
  written out (\<open>CircuitBreaker_execute_overlapping\<close>).

  Timestamps, thresholds and \<open>maxRetries\<close> are \<open>int\<close>, and the counters that start at
  0 and are only incremented are \<open>nat\<close>. Delays are \<open>real\<close>: the arithmetic of
  \<open>calculateDelay\<close> is exact here, where the code rounds each result to a binary64
  number and has \<open>Infinity\<close> and \<open>NaN\<close>. The value of a delay reaches the timer only,
  and no statement below about the number of calls, the breaker, the errors or the
  logger depends on it. In the examples the delays are 1000, 2000, 4000, ... times a
  jitter factor of 1, which binary64 computes exactly.
\<close>

subsection \<open>Errors\<close>

text \<open>
  \<open>new Error(message)\<close> and \<open>new RetryError(originalError, attempts, duration)\<close>. The
  message of a \<open>RetryError\<close> is the one of its original error
  (\<open>super(originalError.message)\<close>).
\<close>

datatype error =
    Error string
  | RetryError (originalError: error) (attempts: nat) (duration: int)

fun message :: "error \<Rightarrow> string" where
  "message (Error m) = m"
| "message (RetryError e n d) = message e"

subsection \<open>The platform\<close>

text \<open>
  \<open>Date.now()\<close>, \<open>Math.random()\<close> and \<open>setTimeout\<close> are globals of the host. They act
  on a state \<open>'s\<close> that the protected operation acts on too: reading the clock leaves
  it as it is, a random draw and a timer may change it.
\<close>

record 's platform =
  date_now :: "'s \<Rightarrow> int"
  math_random :: "'s \<Rightarrow> real \<times> 's"
  set_timeout :: "real \<Rightarrow> 's \<Rightarrow> 's"

type_synonym ('s, 'a) async = "'s \<Rightarrow> (error + 'a) \<times> 's"

subsection \<open>Options and the default idiom\<close>

text \<open>
  \<open>options.x || d\<close> yields \<open>d\<close> when \<open>options.x\<close> is falsy: \<open>undefined\<close> (here
  \<open>None\<close>), the number 0, or the boolean \<open>false\<close>.
\<close>

definition or_number :: "'n::zero option \<Rightarrow> 'n \<Rightarrow> 'n" where
  "or_number x d = (case x of None \<Rightarrow> d | Some v \<Rightarrow> if v = 0 then d else v)"

definition or_boolean :: "bool option \<Rightarrow> bool \<Rightarrow> bool" where
  "or_boolean x d = (case x of None \<Rightarrow> d | Some v \<Rightarrow> if v then v else d)"

record retry_options =
  opt_baseDelay :: "real option"
  opt_maxDelay :: "real option"
  opt_maxRetries :: "int option"
  opt_jitter :: "bool option"

record circuit_breaker_options =
  opt_failureThreshold :: "int option"
  opt_resetTimeout :: "int option"

text \<open>The default parameter \<open>options = {}\<close>: every field is \<open>undefined\<close>.\<close>

definition empty_retry_options :: retry_options where
  "empty_retry_options =
     \<lparr>opt_baseDelay = None, opt_maxDelay = None, opt_maxRetries = None, opt_jitter = None\<rparr>"

definition empty_circuit_breaker_options :: circuit_breaker_options where
  "empty_circuit_breaker_options = \<lparr>opt_failureThreshold = None, opt_resetTimeout = None\<rparr>"

subsection \<open>ExponentialBackoffRetry\<close>

record backoff =
  baseDelay :: real
  maxDelay :: real
  maxRetries :: int
  jitter :: bool

definition ExponentialBackoffRetry_new :: "retry_options \<Rightarrow> backoff" where
  "ExponentialBackoffRetry_new options =
     \<lparr>baseDelay = or_number (opt_baseDelay options) 1000,
      maxDelay = or_number (opt_maxDelay options) 30000,
      maxRetries = or_number (opt_maxRetries options) 5,
      jitter = or_boolean (opt_jitter options) True\<rparr>"

text \<open>
  \<open>calculateDelay(retryCount)\<close>: the capped exponential delay, multiplied by
  \<open>0.5 + Math.random()\<close> when the jitter flag is set. The draw is made only then. The
  operations are those of the reals: the rounding of \<open>Math.pow\<close>, \<open>*\<close> and \<open>+\<close> to
  binary64 is not modelled.
\<close>

definition calculateDelay :: "'s platform \<Rightarrow> backoff \<Rightarrow> nat \<Rightarrow> 's \<Rightarrow> real \<times> 's" where
  "calculateDelay P this retryCount s =
     (let delay = min (maxDelay this) (2 ^ retryCount * baseDelay this)
      in if jitter this
         then (case math_random P s of (r, s') \<Rightarrow> (delay * (0.5 + r), s'))
         else (delay, s))"

definition wait :: "'s platform \<Rightarrow> real \<Rightarrow> 's \<Rightarrow> 's" where
  "wait P ms s = set_timeout P ms s"

text \<open>The decimal digits of a counter, as a template literal prints it.\<close>

fun string_of_nat :: "nat \<Rightarrow> string" where
  "string_of_nat n =
     (if n < 10 then [''0123456789'' ! n]
      else string_of_nat (n div 10) @ [''0123456789'' ! (n mod 10)])"

declare string_of_nat.simps [simp del]

text \<open>
  \<open>execute(fn)\<close>: the \<open>while (true)\<close> loop, with the loop variable \<open>retries\<close> as an
  argument. It ends: a further round is made only while \<open>retries < maxRetries\<close>.
\<close>

function ExponentialBackoffRetry_loop ::
  "'s platform \<Rightarrow> backoff \<Rightarrow> ('s, 'a) async \<Rightarrow> nat \<Rightarrow> ('s, 'a) async" where
  "ExponentialBackoffRetry_loop P this fn retries s =
     (case fn s of
        (Inr result, s1) \<Rightarrow> (Inr result, s1)
      | (Inl err, s1) \<Rightarrow>
          if int retries \<ge> maxRetries this
          then (Inl (Error (''Failed after '' @ string_of_nat retries @ '' retries: ''
                            @ message err)), s1)
          else (case calculateDelay P this retries s1 of
                  (delay, s2) \<Rightarrow>
                    ExponentialBackoffRetry_loop P this fn (retries + 1) (wait P delay s2)))"
  by pat_completeness auto
termination
  by (relation "measure (\<lambda>(P, this, fn, retries, s). nat (maxRetries this - int retries))")
     auto

declare ExponentialBackoffRetry_loop.simps [simp del]

definition ExponentialBackoffRetry_execute ::
  "'s platform \<Rightarrow> backoff \<Rightarrow> ('s, 'a) async \<Rightarrow> ('s, 'a) async" where
  "ExponentialBackoffRetry_execute P this fn s = ExponentialBackoffRetry_loop P this fn 0 s"

subsection \<open>CircuitBreaker\<close>

datatype circuit_state = CLOSED | OPEN | HALF_OPEN

record circuit_breaker =
  failureThreshold :: int
  resetTimeout :: int
  failures :: nat
  state :: circuit_state
  lastFailureTime :: "int option"

definition CircuitBreaker_new :: "circuit_breaker_options \<Rightarrow> circuit_breaker" where
  "CircuitBreaker_new options =
     \<lparr>failureThreshold = or_number (opt_failureThreshold options) 5,
      resetTimeout = or_number (opt_resetTimeout options) 60000,
      failures = 0,
      state = CLOSED,
      lastFailureTime = None\<rparr>"

text \<open>
  The gate at the head of \<open>execute\<close>: an open circuit either becomes half-open or
  throws. \<open>null\<close> counts as 0 in the subtraction.
\<close>

definition CircuitBreaker_gate :: "'s platform \<Rightarrow> circuit_breaker \<Rightarrow> 's \<Rightarrow> error + circuit_breaker" where
  "CircuitBreaker_gate P this s =
     (if state this = OPEN
      then (if date_now P s - (case lastFailureTime this of None \<Rightarrow> 0 | Some t \<Rightarrow> t)
                 \<ge> resetTimeout this
            then Inr (this\<lparr>state := HALF_OPEN\<rparr>)
            else Inl (Error ''Circuit breaker is OPEN''))
      else Inr this)"

definition CircuitBreaker_execute ::
  "'s platform \<Rightarrow> circuit_breaker \<Rightarrow> ('s, 'a) async \<Rightarrow> 's \<Rightarrow> (error + 'a) \<times> circuit_breaker \<times> 's" where
  "CircuitBreaker_execute P this fn s =
     (case CircuitBreaker_gate P this s of
        Inl err \<Rightarrow> (Inl err, this, s)
      | Inr this1 \<Rightarrow>
          (case fn s of
             (Inr result, s1) \<Rightarrow>
               (Inr result,
                (if state this1 = HALF_OPEN then this1\<lparr>state := CLOSED, failures := 0\<rparr>
                 else this1),
                s1)
           | (Inl err, s1) \<Rightarrow>
               (let this2 = this1\<lparr>failures := failures this1 + 1,
                                  lastFailureTime := Some (date_now P s1)\<rparr>
                in (Inl err,
                    (if int (failures this2) \<ge> failureThreshold this2
                     then this2\<lparr>state := OPEN\<rparr> else this2),
                    s1))))"

subsection \<open>RetryMechanism\<close>

text \<open>
  The logger (\<open>options.logger || console\<close>) is the list of the calls it has received,
  the latest last: the method called and the object passed.
\<close>

datatype logger_method = logger_info | logger_error

record 'c log_event =
  event :: string
  event_context :: 'c
  event_attempts :: nat
  event_duration :: "int option"
  event_error :: "string option"

type_synonym 'c logger = "(logger_method \<times> 'c log_event) list"

record retry_mechanism_options =
  opt_retry :: "retry_options option"
  opt_circuitBreaker :: "circuit_breaker_options option"

record 'c retry_mechanism =
  retrier :: backoff
  circuitBreaker :: circuit_breaker
  logger :: "'c logger"

text \<open>
  The constructor. The sink passed as \<open>options.logger\<close> is the argument \<open>sink\<close>: the
  calls a logger has received so far.
\<close>

definition RetryMechanism_new :: "retry_mechanism_options \<Rightarrow> 'c logger \<Rightarrow> 'c retry_mechanism" where
  "RetryMechanism_new options sink =
     \<lparr>retrier = ExponentialBackoffRetry_new
                   (case opt_retry options of None \<Rightarrow> empty_retry_options | Some r \<Rightarrow> r),
      circuitBreaker = CircuitBreaker_new
                   (case opt_circuitBreaker options of
                      None \<Rightarrow> empty_circuit_breaker_options | Some c \<Rightarrow> c),
      logger = sink\<rparr>"

text \<open>
  What one call of \<open>execute\<close> threads through its closures: the local variable
  \<open>attempts\<close>, the logger, and the state \<open>'w\<close> of the host and of the operation.
\<close>

record ('c, 'w) frame =
  attempts_var :: nat
  logger_var :: "'c logger"
  world :: 'w

text \<open>The host's globals, seen from inside a frame.\<close>

definition in_frame :: "'w platform \<Rightarrow> ('c, 'w) frame platform" where
  "in_frame P =
     \<lparr>date_now = (\<lambda>fr. date_now P (world fr)),
      math_random = (\<lambda>fr. case math_random P (world fr) of (r, w') \<Rightarrow> (r, fr\<lparr>world := w'\<rparr>)),
      set_timeout = (\<lambda>ms fr. fr\<lparr>world := set_timeout P ms (world fr)\<rparr>)\<rparr>"

definition logSuccess :: "'w platform \<Rightarrow> 'c \<Rightarrow> nat \<Rightarrow> int \<Rightarrow> ('c, 'w) frame \<Rightarrow> ('c, 'w) frame" where
  "logSuccess P ctx n startTime fr =
     fr\<lparr>logger_var := logger_var fr @
          [(logger_info,
            \<lparr>event = ''retry_success'', event_context = ctx, event_attempts = n,
             event_duration = Some (date_now P (world fr) - startTime),
             event_error = None\<rparr>)]\<rparr>"

definition logFailure :: "'c \<Rightarrow> nat \<Rightarrow> error \<Rightarrow> ('c, 'w) frame \<Rightarrow> ('c, 'w) frame" where
  "logFailure ctx n err fr =
     fr\<lparr>logger_var := logger_var fr @
          [(logger_error,
            \<lparr>event = ''retry_failure'', event_context = ctx, event_attempts = n,
             event_duration = None,
             event_error = Some (message err)\<rparr>)]\<rparr>"

text \<open>The closure handed to the retrier: one attempt of the protected operation.\<close>

definition attempt ::
  "'w platform \<Rightarrow> ('w, 'a) async \<Rightarrow> 'c \<Rightarrow> int \<Rightarrow> (('c, 'w) frame, 'a) async" where
  "attempt P fn ctx startTime fr =
     (let fr1 = fr\<lparr>attempts_var := attempts_var fr + 1\<rparr>
      in case fn (world fr1) of
           (Inr result, w') \<Rightarrow>
             (Inr result, logSuccess P ctx (attempts_var fr1) startTime (fr1\<lparr>world := w'\<rparr>))
         | (Inl err, w') \<Rightarrow>
             (Inl err, logFailure ctx (attempts_var fr1) err (fr1\<lparr>world := w'\<rparr>)))"

definition RetryMechanism_execute ::
  "'w platform \<Rightarrow> 'c retry_mechanism \<Rightarrow> ('w, 'a) async \<Rightarrow> 'c \<Rightarrow> 'w
     \<Rightarrow> (error + 'a) \<times> 'c retry_mechanism \<times> 'w" where
  "RetryMechanism_execute P this fn ctx w =
     (let startTime = date_now P w;
          fr0 = \<lparr>attempts_var = 0, logger_var = logger this, world = w\<rparr>
      in case CircuitBreaker_execute (in_frame P) (circuitBreaker this)
                (ExponentialBackoffRetry_execute (in_frame P) (retrier this)
                   (attempt P fn ctx startTime))
                fr0 of
           (res, cb, fr) \<Rightarrow>
             (let this' = this\<lparr>circuitBreaker := cb, logger := logger_var fr\<rparr>
              in case res of
                   Inr result \<Rightarrow> (Inr result, this', world fr)
                 | Inl err \<Rightarrow>
                     (Inl (RetryError err (attempts_var fr) (date_now P (world fr) - startTime)),
                      this', world fr)))"

subsection \<open>A sequence of calls through one circuit breaker\<close>


subsection \<open>Two overlapping calls through one circuit breaker\<close>

text \<open>
  \<open>execute\<close> is suspended at \<open>await fn()\<close>: between the gate and the code that follows
  the operation, other calls on the same breaker can run. \<open>CircuitBreaker_settle\<close> is
  that code, the rest of the \<open>try\<close> block or the \<open>catch\<close> block, applied to the breaker
  as it is when the operation completes.
\<close>

definition CircuitBreaker_settle ::
  "'s platform \<Rightarrow> circuit_breaker \<Rightarrow> error + 'a \<Rightarrow> 's \<Rightarrow> circuit_breaker" where
  "CircuitBreaker_settle P this res s1 =
     (case res of
        Inr result \<Rightarrow>
          (if state this = HALF_OPEN then this\<lparr>state := CLOSED, failures := 0\<rparr> else this)
      | Inl err \<Rightarrow>
          (let this2 = this\<lparr>failures := failures this + 1,
                             lastFailureTime := Some (date_now P s1)\<rparr>
           in if int (failures this2) \<ge> failureThreshold this2
              then this2\<lparr>state := OPEN\<rparr> else this2))"

text \<open>
  Two calls \<open>execute(fn1)\<close> and \<open>execute(fn2)\<close> on the same breaker, the second made
  while the first awaits its operation, as when \<open>fetchUserData\<close> and
  \<open>updateUserProfile\<close> are started one after the other on the same \<open>retrySystem\<close>:
  both gates are evaluated before an operation has completed; then the first
  operation completes and its call settles, then the second. The results of both
  calls are returned, with the breaker and the state.
\<close>

definition CircuitBreaker_execute_overlapping ::
  "'s platform \<Rightarrow> circuit_breaker \<Rightarrow> ('s, 'a) async \<Rightarrow> ('s, 'b) async \<Rightarrow> 's
     \<Rightarrow> (error + 'a) \<times> (error + 'b) \<times> circuit_breaker \<times> 's" where
  "CircuitBreaker_execute_overlapping P this fn1 fn2 s =
     (case CircuitBreaker_gate P this s of
        Inl err1 \<Rightarrow>
          (case CircuitBreaker_execute P this fn2 s of
             (res2, this', s') \<Rightarrow> (Inl err1, res2, this', s'))
      | Inr this1 \<Rightarrow>
          (case CircuitBreaker_gate P this1 s of
             Inl err2 \<Rightarrow>
               (case fn1 s of
                  (res1, s1) \<Rightarrow> (res1, Inl err2, CircuitBreaker_settle P this1 res1 s1, s1))
           | Inr this2 \<Rightarrow>
               (case fn1 s of
                  (res1, s1) \<Rightarrow>
                    (case fn2 s1 of
                       (res2, s2) \<Rightarrow>
                         (res1, res2,
                          CircuitBreaker_settle P (CircuitBreaker_settle P this2 res1 s1) res2 s2,
                          s2)))))"

subsection \<open>A simulated host and its operations\<close>

text \<open>
  Concrete inputs for the examples below: a host whose clock is a counter of
  milliseconds, whose random draw is always \<open>1/2\<close> (a jitter factor of 1) and whose
  timer advances the clock by the delay; an operation that always throws, and one
  that always returns. Each call of an operation takes 7 ms and is counted.
\<close>

record sim_world =
  sim_clock :: int
  sim_calls :: nat

definition sim_platform :: "sim_world platform" where
  "sim_platform =
     \<lparr>date_now = sim_clock,
      math_random = (\<lambda>w. (1 / 2, w)),
      set_timeout = (\<lambda>ms w. w\<lparr>sim_clock := sim_clock w + \<lceil>ms\<rceil>\<rparr>)\<rparr>"

definition sim_start :: sim_world where
  "sim_start = \<lparr>sim_clock = 0, sim_calls = 0\<rparr>"

definition always_boom :: "(sim_world, unit) async" where
  "always_boom w =
     (Inl (Error ''boom''), w\<lparr>sim_clock := sim_clock w + 7, sim_calls := sim_calls w + 1\<rparr>)"

definition always_ok :: "(sim_world, unit) async" where
  "always_ok w =
     (Inr (), w\<lparr>sim_clock := sim_clock w + 7, sim_calls := sim_calls w + 1\<rparr>)"

text \<open>
  Two more operations: one that throws at its first two calls and returns at the
  third, and one that throws a different error at each call, \<open>boom 1\<close>, \<open>boom 2\<close>, ...;
  \<open>sim_thrown\<close> lists the errors the latter has thrown so far.
\<close>

definition fails_twice_then_ok :: "(sim_world, unit) async" where
  "fails_twice_then_ok w =
     ((if sim_calls w < 2 then Inl (Error ''boom'') else Inr ()),
      w\<lparr>sim_clock := sim_clock w + 7, sim_calls := sim_calls w + 1\<rparr>)"

definition numbered_boom :: "(sim_world, unit) async" where
  "numbered_boom w =
     (Inl (Error (''boom '' @ string_of_nat (sim_calls w + 1))),
      w\<lparr>sim_clock := sim_clock w + 7, sim_calls := sim_calls w + 1\<rparr>)"

definition sim_thrown :: "sim_world \<Rightarrow> error list" where
  "sim_thrown w = map (\<lambda>i. Error (''boom '' @ string_of_nat i)) [1..<sim_calls w + 1]"

section \<open>The retry loop\<close>

text \<open>
  Facts about the loop of \<open>ExponentialBackoffRetry.execute\<close>, by computation induction.
  An observation of the state that the host's random draw and timer leave alone is
  changed by the calls of the operation only.
\<close>

lemma calculateDelay_preserves:
  assumes "\<And>s. obs (snd (math_random P s)) = obs s"
  shows "obs (snd (calculateDelay P this n s)) = obs s"
  using assms [of s] by (auto simp add: calculateDelay_def Let_def split: prod.splits)

lemma loop_always_fails:
  assumes "\<And>s. isl (fst (fn s))"
  shows "isl (fst (ExponentialBackoffRetry_loop P this fn retries s))"
  using assms
proof (induction P this fn retries s rule: ExponentialBackoffRetry_loop.induct)
  case (1 P this fn retries s)
  obtain res s1 where f: "fn s = (res, s1)" by (cases "fn s")
  with "1.prems" [of s] obtain err where r: "res = Inl err" by (cases res) auto
  obtain delay s2 where c: "calculateDelay P this retries s1 = (delay, s2)"
    by (cases "calculateDelay P this retries s1")
  show ?case
  proof (cases "maxRetries this \<le> int retries")
    case True
    then show ?thesis by (simp add: ExponentialBackoffRetry_loop.simps [of P this fn retries s] f r)
  next
    case False
    from "1.IH" [OF f [symmetric] r False c [symmetric]] "1.prems"
    have "isl (fst (ExponentialBackoffRetry_loop P this fn (retries + 1) (wait P delay s2)))" by simp
    with False show ?thesis
      by (simp add: ExponentialBackoffRetry_loop.simps [of P this fn retries s] f r c)
  qed
qed

lemma loop_trace:
  assumes fails: "\<And>s. isl (fst (fn s))"
    and step: "\<And>s. tr (snd (fn s)) = tr s @ [x]"
    and rnd: "\<And>s. tr (snd (math_random P s)) = tr s"
    and tmo: "\<And>ms s. tr (set_timeout P ms s) = tr s"
  shows "tr (snd (ExponentialBackoffRetry_loop P this fn retries s))
           = tr s @ replicate (nat (maxRetries this - int retries) + 1) x"
  using assms
proof (induction P this fn retries s rule: ExponentialBackoffRetry_loop.induct)
  case (1 P this fn retries s)
  obtain res s1 where f: "fn s = (res, s1)" by (cases "fn s")
  with "1.prems"(1) [of s] obtain err where r: "res = Inl err" by (cases res) auto
  obtain delay s2 where c: "calculateDelay P this retries s1 = (delay, s2)"
    by (cases "calculateDelay P this retries s1")
  have s1: "tr s1 = tr s @ [x]" using "1.prems"(2) [of s] f by simp
  show ?case
  proof (cases "maxRetries this \<le> int retries")
    case True
    then show ?thesis
      by (simp add: ExponentialBackoffRetry_loop.simps [of P this fn retries s] f r s1)
  next
    case False
    have s2: "tr s2 = tr s1"
      using calculateDelay_preserves [of tr P this retries s1] "1.prems"(3) c by simp
    have w: "tr (wait P delay s2) = tr s2" by (simp add: wait_def "1.prems"(4))
    have n: "nat (maxRetries this - int retries) = Suc (nat (maxRetries this - int (retries + 1)))"
      using False by simp
    have "tr (snd (ExponentialBackoffRetry_loop P this fn (retries + 1) (wait P delay s2)))
            = tr (wait P delay s2) @ replicate (nat (maxRetries this - int (retries + 1)) + 1) x"
      by (rule "1.IH" [OF f [symmetric] r False c [symmetric]]) (rule "1.prems")+
    with False show ?thesis
      by (simp add: ExponentialBackoffRetry_loop.simps [of P this fn retries s] f r c w s2 s1 n
               del: of_nat_Suc of_nat_add)
  qed
qed

lemma loop_count:
  assumes fails: "\<And>s. isl (fst (fn s))"
    and step: "\<And>s. c (snd (fn s)) = c s + (1::nat)"
    and rnd: "\<And>s. c (snd (math_random P s)) = c s"
    and tmo: "\<And>ms s. c (set_timeout P ms s) = c s"
  shows "c (snd (ExponentialBackoffRetry_loop P this fn retries s))
           = c s + nat (maxRetries this - int retries) + 1"
proof -
  have "replicate (c (snd (ExponentialBackoffRetry_loop P this fn retries s))) ()
          = replicate (c s) () @ replicate (nat (maxRetries this - int retries) + 1) ()"
    by (rule loop_trace [where tr = "\<lambda>s. replicate (c s) ()"])
       (simp_all add: fails step rnd tmo replicate_append_same)
  then have "length (replicate (c (snd (ExponentialBackoffRetry_loop P this fn retries s))) ())
          = length (replicate (c s) () @ replicate (nat (maxRetries this - int retries) + 1) ())"
    by (rule arg_cong)
  then show ?thesis by simp
qed

lemma loop_invariant:
  assumes "\<And>s. I s \<Longrightarrow> I (snd (fn s))"
    and "\<And>s. I s \<Longrightarrow> I (snd (math_random P s))"
    and "\<And>ms s. I s \<Longrightarrow> I (set_timeout P ms s)"
    and "I s"
  shows "I (snd (ExponentialBackoffRetry_loop P this fn retries s))"
  using assms
proof (induction P this fn retries s rule: ExponentialBackoffRetry_loop.induct)
  case (1 P this fn retries s)
  obtain res s1 where f: "fn s = (res, s1)" by (cases "fn s")
  have i1: "I s1" using "1.prems"(1) [OF "1.prems"(4)] f by simp
  show ?case
  proof (cases res)
    case (Inr v)
    with i1 show ?thesis
      by (simp add: ExponentialBackoffRetry_loop.simps [of P this fn retries s] f)
  next
    case (Inl err)
    obtain delay s2 where c: "calculateDelay P this retries s1 = (delay, s2)"
      by (cases "calculateDelay P this retries s1")
    show ?thesis
    proof (cases "maxRetries this \<le> int retries")
      case True
      with i1 show ?thesis
        by (simp add: ExponentialBackoffRetry_loop.simps [of P this fn retries s] f Inl)
    next
      case False
      have "I s2" using c i1 "1.prems"(2) [of s1]
        by (auto simp add: calculateDelay_def Let_def split: prod.splits if_splits)
      then have i3: "I (wait P delay s2)" by (simp add: wait_def "1.prems"(3))
      have "I (snd (ExponentialBackoffRetry_loop P this fn (retries + 1) (wait P delay s2)))"
        by (rule "1.IH" [OF f [symmetric] Inl False c [symmetric]]) (fact "1.prems"(1-3) i3)+
      with False show ?thesis
        by (simp add: ExponentialBackoffRetry_loop.simps [of P this fn retries s] f Inl c)
    qed
  qed
qed

text \<open>
  When every call of the operation throws and \<open>tr\<close> lists the errors thrown, the
  error of the loop quotes the message of the last one.
\<close>

lemma loop_last_error:
  assumes op: "\<And>s. isl (fst (fn s)) \<and> tr (snd (fn s)) = tr s @ [projl (fst (fn s))]"
    and rnd: "\<And>s. tr (snd (math_random P s)) = tr s"
    and tmo: "\<And>ms s. tr (set_timeout P ms s) = tr s"
  shows "fst (ExponentialBackoffRetry_loop P this fn retries s)
           = Inl (Error (''Failed after '' @ string_of_nat (max retries (nat (maxRetries this)))
                         @ '' retries: ''
                         @ message (last (tr (snd (ExponentialBackoffRetry_loop P this fn retries s))))))"
  using assms
proof (induction P this fn retries s rule: ExponentialBackoffRetry_loop.induct)
  case (1 P this fn retries s)
  obtain res s1 where f: "fn s = (res, s1)" by (cases "fn s")
  with "1.prems"(1) [of s] obtain err where r: "res = Inl err" by (cases res) auto
  have s1: "tr s1 = tr s @ [err]" using "1.prems"(1) [of s] f r by simp
  obtain delay s2 where c: "calculateDelay P this retries s1 = (delay, s2)"
    by (cases "calculateDelay P this retries s1")
  show ?case
  proof (cases "maxRetries this \<le> int retries")
    case True
    then have "max retries (nat (maxRetries this)) = retries" by simp
    with True show ?thesis
      by (simp add: ExponentialBackoffRetry_loop.simps [of P this fn retries s] f r s1)
  next
    case False
    then have m: "max (retries + 1) (nat (maxRetries this)) = max retries (nat (maxRetries this))"
      by simp
    have eq: "ExponentialBackoffRetry_loop P this fn retries s
                = ExponentialBackoffRetry_loop P this fn (retries + 1) (wait P delay s2)"
      using False by (simp add: ExponentialBackoffRetry_loop.simps [of P this fn retries s] f r c)
    have "fst (ExponentialBackoffRetry_loop P this fn (retries + 1) (wait P delay s2))
           = Inl (Error (''Failed after ''
                         @ string_of_nat (max (retries + 1) (nat (maxRetries this)))
                         @ '' retries: ''
                         @ message (last (tr (snd (ExponentialBackoffRetry_loop P this fn
                                                     (retries + 1) (wait P delay s2)))))))"
      by (rule "1.IH" [OF f [symmetric] r False c [symmetric]]) (fact "1.prems")+
    then show ?thesis unfolding eq m .
  qed
qed

text \<open>
  The events of a loop, when each call of the operation appends one entry to \<open>tr\<close>
  that carries the number of the call (the counter \<open>c\<close>): an entry \<open>x\<close> for each call
  that throws, then an entry \<open>y\<close> if the last call returns.
\<close>

lemma loop_numbered_events:
  assumes fail: "\<And>s. isl (fst (fn s)) \<Longrightarrow>
                   tr (snd (fn s)) = tr s @ [x (c s + 1)] \<and> c (snd (fn s)) = c s + (1::nat)"
    and ok: "\<And>s. \<not> isl (fst (fn s)) \<Longrightarrow>
                   tr (snd (fn s)) = tr s @ [y (c s + 1)] \<and> c (snd (fn s)) = c s + 1"
    and rnd: "\<And>s. tr (snd (math_random P s)) = tr s \<and> c (snd (math_random P s)) = c s"
    and tmo: "\<And>ms s. tr (set_timeout P ms s) = tr s \<and> c (set_timeout P ms s) = c s"
  shows "\<exists>n::nat.
           tr (snd (ExponentialBackoffRetry_loop P this fn retries s))
             = tr s @ map x [c s + 1 ..< c s + n + 1]
                 @ (if isl (fst (ExponentialBackoffRetry_loop P this fn retries s)) then []
                    else [y (c s + n + 1)]) \<and>
           c (snd (ExponentialBackoffRetry_loop P this fn retries s))
             = c s + n + (if isl (fst (ExponentialBackoffRetry_loop P this fn retries s)) then 0 else 1)"
  using assms
proof (induction P this fn retries s rule: ExponentialBackoffRetry_loop.induct)
  case (1 P this fn retries s)
  let ?L = "ExponentialBackoffRetry_loop P this fn retries s"
  obtain res s1 where f: "fn s = (res, s1)" by (cases "fn s")
  show ?case
  proof (cases res)
    case (Inr v)
    then have "tr s1 = tr s @ [y (c s + 1)] \<and> c s1 = c s + 1"
      using "1.prems"(2) [of s] f by simp
    then have "tr (snd ?L) = tr s @ map x [c s + 1 ..< c s + 0 + 1]
                 @ (if isl (fst ?L) then [] else [y (c s + 0 + 1)]) \<and>
           c (snd ?L) = c s + 0 + (if isl (fst ?L) then 0 else 1)"
      by (simp add: ExponentialBackoffRetry_loop.simps [of P this fn retries s] f Inr)
    then show ?thesis by (rule exI)
  next
    case (Inl err)
    then have s1: "tr s1 = tr s @ [x (c s + 1)]" "c s1 = c s + 1"
      using "1.prems"(1) [of s] f by simp_all
    obtain delay s2 where cd: "calculateDelay P this retries s1 = (delay, s2)"
      by (cases "calculateDelay P this retries s1")
    show ?thesis
    proof (cases "maxRetries this \<le> int retries")
      case True
      with s1 have "tr (snd ?L) = tr s @ map x [c s + 1 ..< c s + 1 + 1]
                 @ (if isl (fst ?L) then [] else [y (c s + 1 + 1)]) \<and>
           c (snd ?L) = c s + 1 + (if isl (fst ?L) then 0 else 1)"
        by (simp add: ExponentialBackoffRetry_loop.simps [of P this fn retries s] f Inl)
      then show ?thesis by (rule exI)
    next
      case False
      let ?s3 = "wait P delay s2"
      let ?R = "ExponentialBackoffRetry_loop P this fn (retries + 1) ?s3"
      have s2: "tr s2 = tr s1" "c s2 = c s1"
        using calculateDelay_preserves [of tr P this retries s1]
          calculateDelay_preserves [of c P this retries s1] "1.prems"(3) cd by simp_all
      have s3: "tr ?s3 = tr s @ [x (c s + 1)]" "c ?s3 = c s + 1"
        using s1 s2 "1.prems"(4) by (simp_all add: wait_def)
      have "\<exists>n. tr (snd ?R) = tr ?s3 @ map x [c ?s3 + 1 ..< c ?s3 + n + 1]
                   @ (if isl (fst ?R) then [] else [y (c ?s3 + n + 1)]) \<and>
                c (snd ?R) = c ?s3 + n + (if isl (fst ?R) then 0 else 1)"
        by (rule "1.IH" [OF f [symmetric] Inl False cd [symmetric]]) (fact "1.prems")+
      then obtain n where n:
        "tr (snd ?R) = tr ?s3 @ map x [c ?s3 + 1 ..< c ?s3 + n + 1]
                   @ (if isl (fst ?R) then [] else [y (c ?s3 + n + 1)])"
        "c (snd ?R) = c ?s3 + n + (if isl (fst ?R) then 0 else 1)" by blast
      have eq: "?L = ?R"
        using False by (simp add: ExponentialBackoffRetry_loop.simps [of P this fn retries s] f Inl cd)
      have u: "[c s + 1 ..< c s + Suc n + 1] = (c s + 1) # [c s + 1 + 1 ..< c s + 1 + n + 1]"
        by (simp add: upt_conv_Cons)
      have "tr (snd ?R) = tr s @ map x [c s + 1 ..< c s + Suc n + 1]
                  @ (if isl (fst ?R) then [] else [y (c s + Suc n + 1)]) \<and>
            c (snd ?R) = c s + Suc n + (if isl (fst ?R) then 0 else 1)"
        using n unfolding s3 u by simp
      then show ?thesis unfolding eq by (rule exI)
    qed
  qed
qed

section \<open>The closures of RetryMechanism.execute and the circuit breaker\<close>

lemma in_frame_simps [simp]:
  "date_now (in_frame P) fr = date_now P (world fr)"
  "attempts_var (snd (math_random (in_frame P) fr)) = attempts_var fr"
  "logger_var (snd (math_random (in_frame P) fr)) = logger_var fr"
  "world (snd (math_random (in_frame P) fr)) = snd (math_random P (world fr))"
  "attempts_var (set_timeout (in_frame P) ms fr) = attempts_var fr"
  "logger_var (set_timeout (in_frame P) ms fr) = logger_var fr"
  "world (set_timeout (in_frame P) ms fr) = set_timeout P ms (world fr)"
  by (simp_all add: in_frame_def split: prod.splits)

lemma attempt_simps [simp]:
  "fst (attempt P fn ctx t fr) = fst (fn (world fr))"
  "attempts_var (snd (attempt P fn ctx t fr)) = attempts_var fr + 1"
  "world (snd (attempt P fn ctx t fr)) = snd (fn (world fr))"
  by (simp_all add: attempt_def Let_def logSuccess_def logFailure_def split: prod.splits sum.splits)

lemma attempt_logger_failure:
  "isl (fst (fn (world fr))) \<Longrightarrow>
   logger_var (snd (attempt P fn ctx t fr)) = logger_var fr @
     [(logger_error,
       \<lparr>event = ''retry_failure'', event_context = ctx, event_attempts = attempts_var fr + 1,
        event_duration = None,
        event_error = Some (message (projl (fst (fn (world fr)))))\<rparr>)]"
  by (auto simp add: attempt_def Let_def logFailure_def split: prod.splits sum.splits)

lemma attempt_logger_success:
  "\<not> isl (fst (fn (world fr))) \<Longrightarrow>
   logger_var (snd (attempt P fn ctx t fr)) = logger_var fr @
     [(logger_info,
       \<lparr>event = ''retry_success'', event_context = ctx, event_attempts = attempts_var fr + 1,
        event_duration = Some (date_now P (snd (fn (world fr))) - t),
        event_error = None\<rparr>)]"
  by (auto simp add: attempt_def Let_def logSuccess_def split: prod.splits sum.splits)

lemma CircuitBreaker_gate_not_open:
  "state this \<noteq> OPEN \<Longrightarrow> CircuitBreaker_gate P this s = Inr this"
  by (simp add: CircuitBreaker_gate_def)


lemma CircuitBreaker_execute_closed_failure:
  "state this = CLOSED \<Longrightarrow> isl (fst (fn s)) \<Longrightarrow>
   CircuitBreaker_execute P this fn s =
     (fst (fn s),
      this\<lparr>failures := failures this + 1, lastFailureTime := Some (date_now P (snd (fn s))),
           state := (if int (failures this + 1) \<ge> failureThreshold this then OPEN else CLOSED)\<rparr>,
      snd (fn s))"
  by (auto simp add: CircuitBreaker_execute_def CircuitBreaker_gate_def Let_def
           split: prod.splits sum.splits)


lemma CircuitBreaker_execute_gate_settle:
  "CircuitBreaker_execute P this fn s =
     (case CircuitBreaker_gate P this s of
        Inl err \<Rightarrow> (Inl err, this, s)
      | Inr this1 \<Rightarrow>
          (fst (fn s), CircuitBreaker_settle P this1 (fst (fn s)) (snd (fn s)), snd (fn s)))"
  by (simp add: CircuitBreaker_execute_def CircuitBreaker_settle_def Let_def
           split: sum.splits prod.splits)

lemma CircuitBreaker_execute_overlapping_half_open:
  assumes "state this = OPEN"
    and "date_now P s - (case lastFailureTime this of None \<Rightarrow> 0 | Some t \<Rightarrow> t)
           \<ge> resetTimeout this"
  shows "CircuitBreaker_execute_overlapping P this fn1 fn2 s =
           (fst (fn1 s), fst (fn2 (snd (fn1 s))),
            CircuitBreaker_settle P
              (CircuitBreaker_settle P (this\<lparr>state := HALF_OPEN\<rparr>) (fst (fn1 s)) (snd (fn1 s)))
              (fst (fn2 (snd (fn1 s)))) (snd (fn2 (snd (fn1 s)))),
            snd (fn2 (snd (fn1 s))))"
  using assms
  by (simp add: CircuitBreaker_execute_overlapping_def CircuitBreaker_gate_def
           split: prod.splits)

section \<open>One call of RetryMechanism.execute\<close>

text \<open>
  The result of \<open>execute\<close> in its two cases: the gate of the breaker throws, or the
  loop runs inside the breaker.
\<close>

lemma RetryMechanism_execute_rejected:
  assumes "CircuitBreaker_gate (in_frame P) (circuitBreaker this)
             \<lparr>attempts_var = 0, logger_var = logger this, world = w\<rparr> = Inl err"
  shows "RetryMechanism_execute P this fn ctx w = (Inl (RetryError err 0 0), this, w)"
  using assms
  by (simp add: RetryMechanism_execute_def Let_def CircuitBreaker_execute_def)

lemma RetryMechanism_execute_admitted:
  assumes "CircuitBreaker_gate (in_frame P) (circuitBreaker this)
             \<lparr>attempts_var = 0, logger_var = logger this, world = w\<rparr> = Inr cb1"
    and "ExponentialBackoffRetry_loop (in_frame P) (retrier this)
           (attempt P fn ctx (date_now P w)) 0
           \<lparr>attempts_var = 0, logger_var = logger this, world = w\<rparr> = (r, fr)"
  shows "RetryMechanism_execute P this fn ctx w =
           (case r of
              Inr result \<Rightarrow> Inr result
            | Inl err \<Rightarrow> Inl (RetryError err (attempts_var fr) (date_now P (world fr) - date_now P w)),
            this\<lparr>circuitBreaker :=
                    (case r of
                       Inr result \<Rightarrow>
                         if state cb1 = HALF_OPEN then cb1\<lparr>state := CLOSED, failures := 0\<rparr> else cb1
                     | Inl err \<Rightarrow>
                         cb1\<lparr>failures := failures cb1 + 1,
                             lastFailureTime := Some (date_now P (world fr)),
                             state := (if int (failures cb1 + 1) \<ge> failureThreshold cb1
                                       then OPEN else state cb1)\<rparr>),
                  logger := logger_var fr\<rparr>,
            world fr)"
  using assms
  by (auto simp add: RetryMechanism_execute_def Let_def CircuitBreaker_execute_def
        ExponentialBackoffRetry_execute_def split: sum.splits)

lemma RetryMechanism_execute_exhausted:
  assumes fails: "\<And>w. isl (fst (fn w))"
    and calls: "\<And>w. calls (snd (fn w)) = calls w + (1::nat)"
      "\<And>w. calls (snd (math_random P w)) = calls w"
      "\<And>ms w. calls (set_timeout P ms w) = calls w"
    and nopen: "state (circuitBreaker this) \<noteq> OPEN"
    and run: "RetryMechanism_execute P this fn ctx w = (res, this', w')"
  shows "(\<exists>err. res = Inl (RetryError err (nat (maxRetries (retrier this)) + 1)
                        (date_now P w' - date_now P w))) \<and>
         calls w' = calls w + nat (maxRetries (retrier this)) + 1 \<and>
         retrier this' = retrier this \<and>
         circuitBreaker this' =
           (circuitBreaker this)
             \<lparr>failures := failures (circuitBreaker this) + 1,
              lastFailureTime := Some (date_now P w'),
              state := (if int (failures (circuitBreaker this) + 1)
                             \<ge> failureThreshold (circuitBreaker this)
                        then OPEN else state (circuitBreaker this))\<rparr>"
proof -
  let ?fr0 = "\<lparr>attempts_var = 0, logger_var = logger this, world = w\<rparr>"
  let ?at = "attempt P fn ctx (date_now P w)"
  let ?R = "ExponentialBackoffRetry_loop (in_frame P) (retrier this) ?at 0 ?fr0"
  obtain r fr where R: "?R = (r, fr)" by (cases ?R)
  have "isl (fst ?R)" by (rule loop_always_fails) (simp add: fails)
  then obtain err where r: "r = Inl err" using R by (cases r) simp_all
  have "attempts_var (snd ?R) = attempts_var ?fr0 + nat (maxRetries (retrier this) - int 0) + 1"
    by (rule loop_count) (simp_all add: fails)
  then have a: "attempts_var fr = nat (maxRetries (retrier this)) + 1" using R by simp
  have "(calls \<circ> world) (snd ?R)
          = (calls \<circ> world) ?fr0 + nat (maxRetries (retrier this) - int 0) + 1"
    by (rule loop_count) (simp_all add: fails calls)
  then have c: "calls (world fr) = calls w + nat (maxRetries (retrier this)) + 1" using R by simp
  have g: "CircuitBreaker_gate (in_frame P) (circuitBreaker this) ?fr0 = Inr (circuitBreaker this)"
    using nopen by (rule CircuitBreaker_gate_not_open)
  from RetryMechanism_execute_admitted [OF g R] run r a c
  show ?thesis by auto
qed

section \<open>The claims\<close>

subsection \<open>The circuit breaker\<close>

text \<open>
  Claim C2, as the code has it. A breaker built with \<open>failureThreshold = 3\<close> starts
  closed; three failing calls in a row open it (the first two leave it closed). While
  it is open, a call made when less than \<open>resetTimeout\<close> has passed since the last
  failure throws \<open>Circuit breaker is OPEN\<close> and leaves the state of the world as it
  was, whatever the operation: the operation is not run. A call made when at least
  \<open>resetTimeout\<close> has passed sets the breaker to half-open and runs its operation: if
  the call is alone and the operation returns, the breaker is closed with
  \<open>failures = 0\<close>; if it throws, the breaker is open again at once, with the time of
  this failure recorded. The trial is not the only call admitted: the gate throws for
  an open breaker only, so a half-open breaker lets every further call through, and of
  two calls that overlap both operations are run.
\<close>

theorem circuit_breaker_threshold_three_lifecycle:
  assumes thr: "opt_failureThreshold options = Some 3"
    and c1: "CircuitBreaker_execute P (CircuitBreaker_new options) fn1 s0 = (res1, cb1, s1)"
    and c2: "CircuitBreaker_execute P cb1 fn2 s1' = (res2, cb2, s2)"
    and c3: "CircuitBreaker_execute P cb2 fn3 s2' = (res3, cb3, s3)"
    and f1: "isl (fst (fn1 s0))" and f2: "isl (fst (fn2 s1'))" and f3: "isl (fst (fn3 s2'))"
  shows "state cb1 = CLOSED \<and> state cb2 = CLOSED \<and> state cb3 = OPEN \<and> failures cb3 = 3 \<and>
         lastFailureTime cb3 = Some (date_now P s3) \<and>
         (date_now P sa - date_now P s3 < resetTimeout cb3 \<longrightarrow>
            CircuitBreaker_execute P cb3 fna sa
              = (Inl (Error ''Circuit breaker is OPEN''), cb3, sa)) \<and>
         (date_now P sb - date_now P s3 \<ge> resetTimeout cb3 \<longrightarrow>
            CircuitBreaker_gate P cb3 sb = Inr (cb3\<lparr>state := HALF_OPEN\<rparr>) \<and>
            (\<not> isl (fst (fnb sb)) \<longrightarrow>
               CircuitBreaker_execute P cb3 fnb sb
                 = (fst (fnb sb), cb3\<lparr>state := CLOSED, failures := 0\<rparr>, snd (fnb sb))) \<and>
            (isl (fst (fnc sb)) \<longrightarrow>
               CircuitBreaker_execute P cb3 fnc sb
                 = (fst (fnc sb),
                    cb3\<lparr>state := OPEN, failures := 4,
                        lastFailureTime := Some (date_now P (snd (fnc sb)))\<rparr>,
                    snd (fnc sb))) \<and>
            CircuitBreaker_gate P (cb3\<lparr>state := HALF_OPEN\<rparr>) sc
              = Inr (cb3\<lparr>state := HALF_OPEN\<rparr>) \<and>
            CircuitBreaker_execute_overlapping P cb3 fnd fne sb
              = (fst (fnd sb), fst (fne (snd (fnd sb))),
                 CircuitBreaker_settle P
                   (CircuitBreaker_settle P (cb3\<lparr>state := HALF_OPEN\<rparr>)
                      (fst (fnd sb)) (snd (fnd sb)))
                   (fst (fne (snd (fnd sb)))) (snd (fne (snd (fnd sb)))),
                 snd (fne (snd (fnd sb)))))"
proof -
  let ?cb0 = "CircuitBreaker_new options"
  have cb0: "state ?cb0 = CLOSED" "failures ?cb0 = 0" "failureThreshold ?cb0 = 3"
    using thr by (simp_all add: CircuitBreaker_new_def or_number_def)
  have cb1: "cb1 = ?cb0\<lparr>failures := 1, lastFailureTime := Some (date_now P s1)\<rparr>"
    using c1 CircuitBreaker_execute_closed_failure [where this = ?cb0 and fn = fn1 and s = s0 and P = P] f1 cb0 by auto
  then have cb1s: "state cb1 = CLOSED" using cb0 by simp
  have cb2: "cb2 = ?cb0\<lparr>failures := 2, lastFailureTime := Some (date_now P s2)\<rparr>"
    using c2 CircuitBreaker_execute_closed_failure [where this = cb1 and fn = fn2 and s = s1' and P = P] f2 cb1s cb0 cb1 by auto
  then have cb2s: "state cb2 = CLOSED" using cb0 by simp
  have cb3: "cb3 = ?cb0\<lparr>failures := 3, lastFailureTime := Some (date_now P s3), state := OPEN\<rparr>"
    using c3 CircuitBreaker_execute_closed_failure [where this = cb2 and fn = fn3 and s = s2' and P = P] f3 cb2s cb0 cb2 by auto
  have open3: "state cb3 = OPEN" "failures cb3 = 3" "lastFailureTime cb3 = Some (date_now P s3)"
    "failureThreshold cb3 = 3"
    using cb3 cb0 by simp_all
  have rej: "date_now P sa - date_now P s3 < resetTimeout cb3 \<Longrightarrow>
            CircuitBreaker_execute P cb3 fna sa
              = (Inl (Error ''Circuit breaker is OPEN''), cb3, sa)"
    using open3 by (simp add: CircuitBreaker_execute_def CircuitBreaker_gate_def)
  have gate: "date_now P sb - date_now P s3 \<ge> resetTimeout cb3 \<Longrightarrow>
            CircuitBreaker_gate P cb3 sb = Inr (cb3\<lparr>state := HALF_OPEN\<rparr>)"
    using open3 by (simp add: CircuitBreaker_gate_def)
  have ok: "date_now P sb - date_now P s3 \<ge> resetTimeout cb3 \<Longrightarrow> \<not> isl (fst (fnb sb)) \<Longrightarrow>
               CircuitBreaker_execute P cb3 fnb sb
                 = (fst (fnb sb), cb3\<lparr>state := CLOSED, failures := 0\<rparr>, snd (fnb sb))"
    using gate by (auto simp add: CircuitBreaker_execute_def split: prod.splits sum.splits)
  have bad: "date_now P sb - date_now P s3 \<ge> resetTimeout cb3 \<Longrightarrow> isl (fst (fnc sb)) \<Longrightarrow>
               CircuitBreaker_execute P cb3 fnc sb
                 = (fst (fnc sb),
                    cb3\<lparr>state := OPEN, failures := 4,
                        lastFailureTime := Some (date_now P (snd (fnc sb)))\<rparr>,
                    snd (fnc sb))"
    using gate open3
    by (auto simp add: CircuitBreaker_execute_def Let_def split: prod.splits sum.splits)
  have again: "CircuitBreaker_gate P (cb3\<lparr>state := HALF_OPEN\<rparr>) sc
                 = Inr (cb3\<lparr>state := HALF_OPEN\<rparr>)"
    by (simp add: CircuitBreaker_gate_def)
  have both: "date_now P sb - date_now P s3 \<ge> resetTimeout cb3 \<Longrightarrow>
            CircuitBreaker_execute_overlapping P cb3 fnd fne sb
              = (fst (fnd sb), fst (fne (snd (fnd sb))),
                 CircuitBreaker_settle P
                   (CircuitBreaker_settle P (cb3\<lparr>state := HALF_OPEN\<rparr>)
                      (fst (fnd sb)) (snd (fnd sb)))
                   (fst (fne (snd (fnd sb)))) (snd (fne (snd (fnd sb)))),
                 snd (fne (snd (fnd sb))))"
    using open3 by (intro CircuitBreaker_execute_overlapping_half_open) simp_all
  from cb1s cb2s open3 rej gate ok bad again both show ?thesis by blast
qed

theorem circuit_breaker_threshold_three_lifecycle_witness:
  "CircuitBreaker_execute sim_platform
     (CircuitBreaker_new \<lparr>opt_failureThreshold = Some 3, opt_resetTimeout = Some 5000\<rparr>)
     always_boom sim_start
     = (Inl (Error ''boom''),
        \<lparr>failureThreshold = 3, resetTimeout = 5000, failures = 1, state = CLOSED,
         lastFailureTime = Some 7\<rparr>,
        \<lparr>sim_clock = 7, sim_calls = 1\<rparr>) \<and>
   CircuitBreaker_execute sim_platform
     \<lparr>failureThreshold = 3, resetTimeout = 5000, failures = 3, state = OPEN,
      lastFailureTime = Some 21\<rparr>
     always_ok \<lparr>sim_clock = 5020, sim_calls = 3\<rparr>
     = (Inl (Error ''Circuit breaker is OPEN''),
        \<lparr>failureThreshold = 3, resetTimeout = 5000, failures = 3, state = OPEN,
         lastFailureTime = Some 21\<rparr>,
        \<lparr>sim_clock = 5020, sim_calls = 3\<rparr>) \<and>
   CircuitBreaker_execute sim_platform
     \<lparr>failureThreshold = 3, resetTimeout = 5000, failures = 3, state = OPEN,
      lastFailureTime = Some 21\<rparr>
     always_ok \<lparr>sim_clock = 5021, sim_calls = 3\<rparr>
     = (Inr (),
        \<lparr>failureThreshold = 3, resetTimeout = 5000, failures = 0, state = CLOSED,
         lastFailureTime = Some 21\<rparr>,
        \<lparr>sim_clock = 5028, sim_calls = 4\<rparr>) \<and>
   CircuitBreaker_execute sim_platform
     \<lparr>failureThreshold = 3, resetTimeout = 5000, failures = 3, state = OPEN,
      lastFailureTime = Some 21\<rparr>
     always_boom \<lparr>sim_clock = 5021, sim_calls = 3\<rparr>
     = (Inl (Error ''boom''),
        \<lparr>failureThreshold = 3, resetTimeout = 5000, failures = 4, state = OPEN,
         lastFailureTime = Some 5028\<rparr>,
        \<lparr>sim_clock = 5028, sim_calls = 4\<rparr>) \<and>
   CircuitBreaker_execute_overlapping sim_platform
     \<lparr>failureThreshold = 3, resetTimeout = 5000, failures = 3, state = OPEN,
      lastFailureTime = Some 21\<rparr>
     always_boom always_ok \<lparr>sim_clock = 5021, sim_calls = 3\<rparr>
     = (Inl (Error ''boom''), Inr (),
        \<lparr>failureThreshold = 3, resetTimeout = 5000, failures = 4, state = OPEN,
         lastFailureTime = Some 5028\<rparr>,
        \<lparr>sim_clock = 5035, sim_calls = 5\<rparr>)"
  using circuit_breaker_threshold_three_lifecycle
    [where options = "\<lparr>opt_failureThreshold = Some 3, opt_resetTimeout = Some 5000\<rparr>"
       and P = sim_platform
       and ?fn1.0 = always_boom and ?s0.0 = sim_start
       and ?res1.0 = "Inl (Error ''boom'')"
       and ?cb1.0 = "\<lparr>failureThreshold = 3, resetTimeout = 5000, failures = 1, state = CLOSED,
                      lastFailureTime = Some 7\<rparr>"
       and ?s1.0 = "\<lparr>sim_clock = 7, sim_calls = 1\<rparr>"
       and ?fn2.0 = always_boom and s1' = "\<lparr>sim_clock = 7, sim_calls = 1\<rparr>"
       and ?res2.0 = "Inl (Error ''boom'')"
       and ?cb2.0 = "\<lparr>failureThreshold = 3, resetTimeout = 5000, failures = 2, state = CLOSED,
                      lastFailureTime = Some 14\<rparr>"
       and ?s2.0 = "\<lparr>sim_clock = 14, sim_calls = 2\<rparr>"
       and ?fn3.0 = always_boom and s2' = "\<lparr>sim_clock = 14, sim_calls = 2\<rparr>"
       and ?res3.0 = "Inl (Error ''boom'')"
       and ?cb3.0 = "\<lparr>failureThreshold = 3, resetTimeout = 5000, failures = 3, state = OPEN,
                      lastFailureTime = Some 21\<rparr>"
       and ?s3.0 = "\<lparr>sim_clock = 21, sim_calls = 3\<rparr>"
       and sa = "\<lparr>sim_clock = 5020, sim_calls = 3\<rparr>" and fna = always_ok
       and sb = "\<lparr>sim_clock = 5021, sim_calls = 3\<rparr>" and fnb = always_ok
       and fnc = always_boom
       and sc = "\<lparr>sim_clock = 5021, sim_calls = 3\<rparr>"
       and fnd = always_boom and fne = always_ok]
  by (simp add: CircuitBreaker_execute_def CircuitBreaker_gate_def CircuitBreaker_new_def
        CircuitBreaker_settle_def
        or_number_def sim_platform_def sim_start_def always_boom_def always_ok_def)

text \<open>
  Claim C2 as the specification states it admits a single trial after the reset
  timeout. Here the breaker is open and the timeout has passed; a second call arrives
  while the first awaits its operation. Both operations are run (5 calls counted
  after 3) and both calls return.
\<close>

theorem half_open_admits_overlapping_calls:
  "CircuitBreaker_execute_overlapping sim_platform
     \<lparr>failureThreshold = 3, resetTimeout = 5000, failures = 3, state = OPEN,
      lastFailureTime = Some 21\<rparr>
     always_ok always_ok \<lparr>sim_clock = 5021, sim_calls = 3\<rparr>
     = (Inr (), Inr (),
        \<lparr>failureThreshold = 3, resetTimeout = 5000, failures = 0, state = CLOSED,
         lastFailureTime = Some 21\<rparr>,
        \<lparr>sim_clock = 5035, sim_calls = 5\<rparr>)"
  by (simp add: CircuitBreaker_execute_overlapping_def CircuitBreaker_gate_def
        CircuitBreaker_settle_def sim_platform_def always_ok_def)



subsection \<open>The constructor of the backoff\<close>

text \<open>
  Claim C10. Whatever the options, \<open>jitter: false\<close> included, the constructed instance
  has its jitter flag set (\<open>options.jitter || true\<close>), so \<open>calculateDelay\<close> on it always
  multiplies by \<open>0.5 + Math.random()\<close>.
\<close>

theorem jitter_cannot_be_disabled:
  "jitter (ExponentialBackoffRetry_new options) \<and>
   jitter (ExponentialBackoffRetry_new (options\<lparr>opt_jitter := Some False\<rparr>)) \<and>
   fst (calculateDelay P (ExponentialBackoffRetry_new options) n s)
     = min (maxDelay (ExponentialBackoffRetry_new options))
           (2 ^ n * baseDelay (ExponentialBackoffRetry_new options))
       * (0.5 + fst (math_random P s))"
  by (simp add: ExponentialBackoffRetry_new_def or_boolean_def calculateDelay_def
           split: option.splits prod.splits)

text \<open>
  Claim C7, as the code has it. The constructor does not validate the delays: given
  an options object whose \<open>baseDelay\<close> and \<open>maxDelay\<close> are numbers other than 0, it
  returns an instance that holds exactly these two values, whatever their sign and
  their order, and there is no configuration error. \<open>calculateDelay\<close> on that
  instance has no error condition either: it makes its draw and returns the capped
  value times the jitter factor, computed from the values as given.
\<close>

theorem constructor_takes_parameters_unchecked:
  assumes "b \<noteq> 0" and "m \<noteq> 0"
  shows "baseDelay (ExponentialBackoffRetry_new
                      (options\<lparr>opt_baseDelay := Some b, opt_maxDelay := Some m\<rparr>)) = b \<and>
         maxDelay (ExponentialBackoffRetry_new
                      (options\<lparr>opt_baseDelay := Some b, opt_maxDelay := Some m\<rparr>)) = m \<and>
         calculateDelay P
           (ExponentialBackoffRetry_new
              (options\<lparr>opt_baseDelay := Some b, opt_maxDelay := Some m\<rparr>)) n s
           = (min m (2 ^ n * b) * (0.5 + fst (math_random P s)), snd (math_random P s))"
  using assms
  by (simp add: ExponentialBackoffRetry_new_def or_number_def or_boolean_def calculateDelay_def
           split: option.splits prod.splits)

theorem constructor_takes_parameters_unchecked_witness:
  "(1000::real) \<noteq> 0 \<and> (10::real) \<noteq> 0 \<and>
   baseDelay (ExponentialBackoffRetry_new
                (empty_retry_options\<lparr>opt_baseDelay := Some 1000, opt_maxDelay := Some 10\<rparr>))
     = 1000 \<and>
   maxDelay (ExponentialBackoffRetry_new
                (empty_retry_options\<lparr>opt_baseDelay := Some 1000, opt_maxDelay := Some 10\<rparr>))
     = 10 \<and>
   calculateDelay sim_platform
     (ExponentialBackoffRetry_new
        (empty_retry_options\<lparr>opt_baseDelay := Some 1000, opt_maxDelay := Some 10\<rparr>))
     0 sim_start = (10, sim_start)"
  using constructor_takes_parameters_unchecked
    [where b = 1000 and m = 10 and options = empty_retry_options and P = sim_platform
       and n = 0 and s = sim_start]
  by (simp add: sim_platform_def)

text \<open>
  Claim C7 as the specification states it asks for a configuration error at
  construction. Here \<open>maxDelay < baseDelay\<close>, and a negative \<open>baseDelay\<close>, are accepted:
  the constructor returns the instance with these values.
\<close>

theorem constructor_accepts_malformed_configuration:
  "ExponentialBackoffRetry_new
     \<lparr>opt_baseDelay = Some 1000, opt_maxDelay = Some 10, opt_maxRetries = None,
      opt_jitter = None\<rparr>
     = \<lparr>baseDelay = 1000, maxDelay = 10, maxRetries = 5, jitter = True\<rparr> \<and>
   ExponentialBackoffRetry_new
     \<lparr>opt_baseDelay = Some (- 5), opt_maxDelay = None, opt_maxRetries = None,
      opt_jitter = None\<rparr>
     = \<lparr>baseDelay = - 5, maxDelay = 30000, maxRetries = 5, jitter = True\<rparr>"
  by (simp add: ExponentialBackoffRetry_new_def or_number_def or_boolean_def)

text \<open>
  Claim C5 asks that \<open>maxRetries: 0\<close> gives one call and no retry. The constructor
  reads \<open>options.maxRetries || 5\<close>, so 0 is replaced by 5: an operation that always
  throws is called 6 times, and the error says \<open>Failed after 5 retries\<close>.
\<close>

theorem maxRetries_zero_replaced_by_default:
  "maxRetries (ExponentialBackoffRetry_new (empty_retry_options\<lparr>opt_maxRetries := Some 0\<rparr>))
     = 5 \<and>
   ExponentialBackoffRetry_execute sim_platform
     (ExponentialBackoffRetry_new (empty_retry_options\<lparr>opt_maxRetries := Some 0\<rparr>))
     always_boom sim_start
     = (Inl (Error ''Failed after 5 retries: boom''), \<lparr>sim_clock = 31042, sim_calls = 6\<rparr>)"
  by (simp add: ExponentialBackoffRetry_execute_def ExponentialBackoffRetry_loop.simps
        ExponentialBackoffRetry_new_def empty_retry_options_def or_number_def or_boolean_def
        calculateDelay_def wait_def sim_platform_def sim_start_def always_boom_def
        string_of_nat.simps)

subsection \<open>The retry mechanism\<close>

text \<open>
  Claim C3. A mechanism built with \<open>maxRetries = 2\<close>, given an operation that throws
  at every call, calls it exactly 3 times (\<open>calls\<close> is any counter of the state that
  each call of the operation increments and the host leaves alone) and then throws a
  \<open>RetryError\<close> whose \<open>attempts\<close> is 3.
\<close>

theorem retry_mechanism_three_invocations_then_exhausted:
  assumes "opt_retry options = Some ro" and "opt_maxRetries ro = Some 2"
    and "\<forall>w. isl (fst (fn w))"
    and "\<forall>w. calls (snd (fn w)) = calls w + (1::nat)"
    and "\<forall>w. calls (snd (math_random P w)) = calls w"
    and "\<forall>ms w. calls (set_timeout P ms w) = calls w"
    and run: "RetryMechanism_execute P (RetryMechanism_new options sink) fn ctx w = (res, this', w')"
  shows "calls w' = calls w + 3 \<and>
         (\<exists>err. res = Inl (RetryError err 3 (date_now P w' - date_now P w))) \<and>
         attempts (projl res) = 3"
proof -
  let ?m0 = "RetryMechanism_new options sink"
  have m: "maxRetries (retrier ?m0) = 2"
    using assms(1,2)
    by (simp add: RetryMechanism_new_def ExponentialBackoffRetry_new_def or_number_def)
  have s: "state (circuitBreaker ?m0) \<noteq> OPEN"
    by (simp add: RetryMechanism_new_def CircuitBreaker_new_def)
  have "(\<exists>err. res = Inl (RetryError err (nat (maxRetries (retrier ?m0)) + 1)
                        (date_now P w' - date_now P w))) \<and>
        calls w' = calls w + nat (maxRetries (retrier ?m0)) + 1"
    using RetryMechanism_execute_exhausted [where fn = fn and calls = calls and P = P
        and this = ?m0, OF _ _ _ _ s run] assms(3-6)
    by simp
  with m show ?thesis by auto
qed

theorem retry_mechanism_three_invocations_then_exhausted_witness:
  "RetryMechanism_execute sim_platform
     (RetryMechanism_new
        \<lparr>opt_retry = Some (empty_retry_options\<lparr>opt_maxRetries := Some 2\<rparr>),
         opt_circuitBreaker = None\<rparr> [])
     always_boom () sim_start
     = (Inl (RetryError (Error ''Failed after 2 retries: boom'') 3 3021),
        \<lparr>retrier = \<lparr>baseDelay = 1000, maxDelay = 30000, maxRetries = 2, jitter = True\<rparr>,
         circuitBreaker =
           \<lparr>failureThreshold = 5, resetTimeout = 60000, failures = 1, state = CLOSED,
            lastFailureTime = Some 3021\<rparr>,
         logger =
           [(logger_error,
             \<lparr>event = ''retry_failure'', event_context = (), event_attempts = 1,
              event_duration = None, event_error = Some ''boom''\<rparr>),
            (logger_error,
             \<lparr>event = ''retry_failure'', event_context = (), event_attempts = 2,
              event_duration = None, event_error = Some ''boom''\<rparr>),
            (logger_error,
             \<lparr>event = ''retry_failure'', event_context = (), event_attempts = 3,
              event_duration = None, event_error = Some ''boom''\<rparr>)]\<rparr>,
        \<lparr>sim_clock = 3021, sim_calls = 3\<rparr>) \<and>
   sim_calls \<lparr>sim_clock = 3021, sim_calls = 3\<rparr> = sim_calls sim_start + 3 \<and>
   attempts (RetryError (Error ''Failed after 2 retries: boom'') 3 3021) = 3"
  using retry_mechanism_three_invocations_then_exhausted
    [where options = "\<lparr>opt_retry = Some (empty_retry_options\<lparr>opt_maxRetries := Some 2\<rparr>),
                       opt_circuitBreaker = None\<rparr>"
       and ro = "empty_retry_options\<lparr>opt_maxRetries := Some 2\<rparr>"
       and fn = always_boom and calls = sim_calls and P = sim_platform
       and sink = "[]" and ctx = "()" and w = sim_start
       and res = "Inl (RetryError (Error ''Failed after 2 retries: boom'') 3 3021)"
       and this' = "\<lparr>retrier = \<lparr>baseDelay = 1000, maxDelay = 30000, maxRetries = 2, jitter = True\<rparr>,
         circuitBreaker =
           \<lparr>failureThreshold = 5, resetTimeout = 60000, failures = 1, state = CLOSED,
            lastFailureTime = Some 3021\<rparr>,
         logger =
           [(logger_error,
             \<lparr>event = ''retry_failure'', event_context = (), event_attempts = 1,
              event_duration = None, event_error = Some ''boom''\<rparr>),
            (logger_error,
             \<lparr>event = ''retry_failure'', event_context = (), event_attempts = 2,
              event_duration = None, event_error = Some ''boom''\<rparr>),
            (logger_error,
             \<lparr>event = ''retry_failure'', event_context = (), event_attempts = 3,
              event_duration = None, event_error = Some ''boom''\<rparr>)]\<rparr>"
       and w' = "\<lparr>sim_clock = 3021, sim_calls = 3\<rparr>"]
  by (simp add: RetryMechanism_execute_def RetryMechanism_new_def ExponentialBackoffRetry_new_def
        CircuitBreaker_new_def CircuitBreaker_execute_def CircuitBreaker_gate_def
        ExponentialBackoffRetry_execute_def ExponentialBackoffRetry_loop.simps calculateDelay_def
        wait_def attempt_def logFailure_def in_frame_def or_number_def or_boolean_def
        empty_retry_options_def empty_circuit_breaker_options_def string_of_nat.simps
        sim_platform_def sim_start_def always_boom_def)

text \<open>
  Claim C1. A mechanism built with \<open>maxRetries = 1\<close> and \<open>failureThreshold = 2\<close>, given
  an operation that throws at every call. The first call of \<open>execute\<close> runs the
  operation twice and leaves the breaker closed with \<open>failures = 1\<close>; the second call
  runs it twice again and leaves the breaker open with \<open>failures = 2\<close>. So four
  failures of the operation count as two failures of the breaker: one for each
  exhausted retry loop.
\<close>

theorem resilient_executor_two_exhausted_calls_open_circuit:
  assumes "opt_retry options = Some ro" and "opt_maxRetries ro = Some 1"
    and "opt_circuitBreaker options = Some co" and "opt_failureThreshold co = Some 2"
    and "\<forall>w. isl (fst (fn w))"
    and "\<forall>w. calls (snd (fn w)) = calls w + (1::nat)"
    and "\<forall>w. calls (snd (math_random P w)) = calls w"
    and "\<forall>ms w. calls (set_timeout P ms w) = calls w"
    and first: "RetryMechanism_execute P (RetryMechanism_new options sink) fn ctx w
                  = (res1, this1, w1)"
    and second: "RetryMechanism_execute P this1 fn ctx' w1' = (res2, this2, w2)"
  shows "isl res1 \<and> calls w1 = calls w + 2 \<and>
         failures (circuitBreaker this1) = 1 \<and> state (circuitBreaker this1) = CLOSED \<and>
         isl res2 \<and> calls w2 = calls w1' + 2 \<and>
         failures (circuitBreaker this2) = 2 \<and> state (circuitBreaker this2) = OPEN"
proof -
  let ?m0 = "RetryMechanism_new options sink"
  have m: "maxRetries (retrier ?m0) = 1"
    using assms(1,2)
    by (simp add: RetryMechanism_new_def ExponentialBackoffRetry_new_def or_number_def)
  have cb: "state (circuitBreaker ?m0) = CLOSED" "failures (circuitBreaker ?m0) = 0"
    "failureThreshold (circuitBreaker ?m0) = 2"
    using assms(3,4) by (simp_all add: RetryMechanism_new_def CircuitBreaker_new_def or_number_def)
  then have s: "state (circuitBreaker ?m0) \<noteq> OPEN" by simp
  have one: "(\<exists>err. res1 = Inl (RetryError err (nat (maxRetries (retrier ?m0)) + 1)
                        (date_now P w1 - date_now P w))) \<and>
        calls w1 = calls w + nat (maxRetries (retrier ?m0)) + 1 \<and>
        retrier this1 = retrier ?m0 \<and>
        circuitBreaker this1 =
           (circuitBreaker ?m0)
             \<lparr>failures := failures (circuitBreaker ?m0) + 1,
              lastFailureTime := Some (date_now P w1),
              state := (if int (failures (circuitBreaker ?m0) + 1)
                             \<ge> failureThreshold (circuitBreaker ?m0)
                        then OPEN else state (circuitBreaker ?m0))\<rparr>"
    using RetryMechanism_execute_exhausted [where fn = fn and calls = calls and P = P
        and this = ?m0, OF _ _ _ _ s first] assms(5-8)
    by simp
  then have cb1: "state (circuitBreaker this1) = CLOSED" "failures (circuitBreaker this1) = 1"
    "failureThreshold (circuitBreaker this1) = 2" "maxRetries (retrier this1) = 1"
    using cb m by simp_all
  then have s1: "state (circuitBreaker this1) \<noteq> OPEN" by simp
  have two: "(\<exists>err. res2 = Inl (RetryError err (nat (maxRetries (retrier this1)) + 1)
                        (date_now P w2 - date_now P w1'))) \<and>
        calls w2 = calls w1' + nat (maxRetries (retrier this1)) + 1 \<and>
        retrier this2 = retrier this1 \<and>
        circuitBreaker this2 =
           (circuitBreaker this1)
             \<lparr>failures := failures (circuitBreaker this1) + 1,
              lastFailureTime := Some (date_now P w2),
              state := (if int (failures (circuitBreaker this1) + 1)
                             \<ge> failureThreshold (circuitBreaker this1)
                        then OPEN else state (circuitBreaker this1))\<rparr>"
    using RetryMechanism_execute_exhausted [where fn = fn and calls = calls and P = P
        and this = this1, OF _ _ _ _ s1 second] assms(5-8)
    by simp
  then have cb2: "state (circuitBreaker this2) = OPEN" "failures (circuitBreaker this2) = 2"
    using cb1 by simp_all
  from one two m cb1 cb2 show ?thesis by auto
qed

theorem resilient_executor_two_exhausted_calls_open_circuit_witness:
  "RetryMechanism_execute sim_platform
     (RetryMechanism_new
        \<lparr>opt_retry = Some (empty_retry_options\<lparr>opt_maxRetries := Some 1\<rparr>),
         opt_circuitBreaker = Some \<lparr>opt_failureThreshold = Some 2, opt_resetTimeout = None\<rparr>\<rparr> [])
     always_boom () sim_start
     = (Inl (RetryError (Error ''Failed after 1 retries: boom'') 2 1014),
        \<lparr>retrier = \<lparr>baseDelay = 1000, maxDelay = 30000, maxRetries = 1, jitter = True\<rparr>,
         circuitBreaker =
           \<lparr>failureThreshold = 2, resetTimeout = 60000, failures = 1, state = CLOSED,
            lastFailureTime = Some 1014\<rparr>,
         logger =
           [(logger_error,
             \<lparr>event = ''retry_failure'', event_context = (), event_attempts = 1,
              event_duration = None, event_error = Some ''boom''\<rparr>),
            (logger_error,
             \<lparr>event = ''retry_failure'', event_context = (), event_attempts = 2,
              event_duration = None, event_error = Some ''boom''\<rparr>)]\<rparr>,
        \<lparr>sim_clock = 1014, sim_calls = 2\<rparr>) \<and>
   RetryMechanism_execute sim_platform
        \<lparr>retrier = \<lparr>baseDelay = 1000, maxDelay = 30000, maxRetries = 1, jitter = True\<rparr>,
         circuitBreaker =
           \<lparr>failureThreshold = 2, resetTimeout = 60000, failures = 1, state = CLOSED,
            lastFailureTime = Some 1014\<rparr>,
         logger =
           [(logger_error,
             \<lparr>event = ''retry_failure'', event_context = (), event_attempts = 1,
              event_duration = None, event_error = Some ''boom''\<rparr>),
            (logger_error,
             \<lparr>event = ''retry_failure'', event_context = (), event_attempts = 2,
              event_duration = None, event_error = Some ''boom''\<rparr>)]\<rparr>
     always_boom () \<lparr>sim_clock = 1014, sim_calls = 2\<rparr>
     = (Inl (RetryError (Error ''Failed after 1 retries: boom'') 2 1014),
        \<lparr>retrier = \<lparr>baseDelay = 1000, maxDelay = 30000, maxRetries = 1, jitter = True\<rparr>,
         circuitBreaker =
           \<lparr>failureThreshold = 2, resetTimeout = 60000, failures = 2, state = OPEN,
            lastFailureTime = Some 2028\<rparr>,
         logger =
           [(logger_error,
             \<lparr>event = ''retry_failure'', event_context = (), event_attempts = 1,
              event_duration = None, event_error = Some ''boom''\<rparr>),
            (logger_error,
             \<lparr>event = ''retry_failure'', event_context = (), event_attempts = 2,
              event_duration = None, event_error = Some ''boom''\<rparr>),
            (logger_error,
             \<lparr>event = ''retry_failure'', event_context = (), event_attempts = 1,
              event_duration = None, event_error = Some ''boom''\<rparr>),
            (logger_error,
             \<lparr>event = ''retry_failure'', event_context = (), event_attempts = 2,
              event_duration = None, event_error = Some ''boom''\<rparr>)]\<rparr>,
        \<lparr>sim_clock = 2028, sim_calls = 4\<rparr>) \<and>
   sim_calls \<lparr>sim_clock = 1014, sim_calls = 2\<rparr> = sim_calls sim_start + 2 \<and>
   sim_calls \<lparr>sim_clock = 2028, sim_calls = 4\<rparr> = sim_calls \<lparr>sim_clock = 1014, sim_calls = 2\<rparr> + 2"
  using resilient_executor_two_exhausted_calls_open_circuit
    [where options = "\<lparr>opt_retry = Some (empty_retry_options\<lparr>opt_maxRetries := Some 1\<rparr>),
         opt_circuitBreaker = Some \<lparr>opt_failureThreshold = Some 2, opt_resetTimeout = None\<rparr>\<rparr>"
       and ro = "empty_retry_options\<lparr>opt_maxRetries := Some 1\<rparr>"
       and co = "\<lparr>opt_failureThreshold = Some 2, opt_resetTimeout = None\<rparr>"
       and fn = always_boom and calls = sim_calls and P = sim_platform
       and sink = "[]" and ctx = "()" and ctx' = "()" and w = sim_start
       and ?res1.0 = "Inl (RetryError (Error ''Failed after 1 retries: boom'') 2 1014)"
       and ?this1.0 = "\<lparr>retrier = \<lparr>baseDelay = 1000, maxDelay = 30000, maxRetries = 1, jitter = True\<rparr>,
         circuitBreaker =
           \<lparr>failureThreshold = 2, resetTimeout = 60000, failures = 1, state = CLOSED,
            lastFailureTime = Some 1014\<rparr>,
         logger =
           [(logger_error,
             \<lparr>event = ''retry_failure'', event_context = (), event_attempts = 1,
              event_duration = None, event_error = Some ''boom''\<rparr>),
            (logger_error,
             \<lparr>event = ''retry_failure'', event_context = (), event_attempts = 2,
              event_duration = None, event_error = Some ''boom''\<rparr>)]\<rparr>"
       and ?w1.0 = "\<lparr>sim_clock = 1014, sim_calls = 2\<rparr>"
       and w1' = "\<lparr>sim_clock = 1014, sim_calls = 2\<rparr>"
       and ?res2.0 = "Inl (RetryError (Error ''Failed after 1 retries: boom'') 2 1014)"
       and ?this2.0 = "\<lparr>retrier = \<lparr>baseDelay = 1000, maxDelay = 30000, maxRetries = 1, jitter = True\<rparr>,
         circuitBreaker =
           \<lparr>failureThreshold = 2, resetTimeout = 60000, failures = 2, state = OPEN,
            lastFailureTime = Some 2028\<rparr>,
         logger =
           [(logger_error,
             \<lparr>event = ''retry_failure'', event_context = (), event_attempts = 1,
              event_duration = None, event_error = Some ''boom''\<rparr>),
            (logger_error,
             \<lparr>event = ''retry_failure'', event_context = (), event_attempts = 2,
              event_duration = None, event_error = Some ''boom''\<rparr>),
            (logger_error,
             \<lparr>event = ''retry_failure'', event_context = (), event_attempts = 1,
              event_duration = None, event_error = Some ''boom''\<rparr>),
            (logger_error,
             \<lparr>event = ''retry_failure'', event_context = (), event_attempts = 2,
              event_duration = None, event_error = Some ''boom''\<rparr>)]\<rparr>"
       and ?w2.0 = "\<lparr>sim_clock = 2028, sim_calls = 4\<rparr>"]
  by (simp add: RetryMechanism_execute_def RetryMechanism_new_def ExponentialBackoffRetry_new_def
        CircuitBreaker_new_def CircuitBreaker_execute_def CircuitBreaker_gate_def
        ExponentialBackoffRetry_execute_def ExponentialBackoffRetry_loop.simps calculateDelay_def
        wait_def attempt_def logFailure_def in_frame_def or_number_def or_boolean_def
        empty_retry_options_def empty_circuit_breaker_options_def string_of_nat.simps
        sim_platform_def sim_start_def always_boom_def)

text \<open>
  Claim C6, as the code has it. When the retries are exhausted (the call passes the
  gate of the breaker, closed, half-open or open with the reset timeout passed, and the
  operation throws at every call), the \<open>RetryError\<close> carries as \<open>originalError\<close> the
  error thrown by the retrier: a new \<open>Error\<close> whose message is
  \<open>Failed after <retries> retries: \<close> followed by the message of the last error the
  operation has thrown. It is never that last error itself. With it come the number
  of attempts and the time elapsed since the start of the call. Here \<open>thrown\<close> is any
  record, kept in the state, of the errors the operation has thrown, so that
  \<open>last (thrown w')\<close> is the error of its last call.
\<close>

theorem retry_error_carries_retrier_error:
  assumes op: "\<forall>w. isl (fst (fn w)) \<and> thrown (snd (fn w)) = thrown w @ [projl (fst (fn w))]"
    and rnd: "\<forall>w. thrown (snd (math_random P w)) = thrown w"
    and tmo: "\<forall>ms w. thrown (set_timeout P ms w) = thrown w"
    and admitted: "state (circuitBreaker this) = OPEN \<longrightarrow>
                     resetTimeout (circuitBreaker this)
                       \<le> date_now P w - (case lastFailureTime (circuitBreaker this) of
                                            None \<Rightarrow> 0 | Some t \<Rightarrow> t)"
    and run: "RetryMechanism_execute P this fn ctx w = (res, this', w')"
  shows "res = Inl (RetryError
                      (Error (''Failed after '' @ string_of_nat (nat (maxRetries (retrier this)))
                              @ '' retries: '' @ message (last (thrown w'))))
                      (nat (maxRetries (retrier this)) + 1)
                      (date_now P w' - date_now P w)) \<and>
         length (thrown w') = length (thrown w) + nat (maxRetries (retrier this)) + 1 \<and>
         originalError (projl res) \<noteq> last (thrown w')"
proof -
  let ?fr0 = "\<lparr>attempts_var = 0, logger_var = logger this, world = w\<rparr>"
  let ?at = "attempt P fn ctx (date_now P w)"
  let ?R = "ExponentialBackoffRetry_loop (in_frame P) (retrier this) ?at 0 ?fr0"
  let ?k = "nat (maxRetries (retrier this))"
  obtain r fr where R: "?R = (r, fr)" by (cases ?R)
  have "fst ?R = Inl (Error (''Failed after '' @ string_of_nat (max 0 ?k) @ '' retries: ''
                             @ message (last ((thrown \<circ> world) (snd ?R)))))"
    by (rule loop_last_error) (simp_all add: op rnd tmo)
  then have r: "r = Inl (Error (''Failed after '' @ string_of_nat ?k @ '' retries: ''
                               @ message (last (thrown (world fr)))))"
    using R by simp
  have "attempts_var (snd ?R) = attempts_var ?fr0 + nat (maxRetries (retrier this) - int 0) + 1"
    by (rule loop_count) (simp_all add: op)
  then have a: "attempts_var fr = ?k + 1" using R by simp
  have "(length \<circ> thrown \<circ> world) (snd ?R)
          = (length \<circ> thrown \<circ> world) ?fr0 + nat (maxRetries (retrier this) - int 0) + 1"
    by (rule loop_count) (simp_all add: op rnd tmo)
  then have n: "length (thrown (world fr)) = length (thrown w) + ?k + 1" using R by simp
  obtain cb1 where g: "CircuitBreaker_gate (in_frame P) (circuitBreaker this) ?fr0 = Inr cb1"
    using admitted
    by (cases "state (circuitBreaker this) = OPEN") (simp_all add: CircuitBreaker_gate_def)
  from RetryMechanism_execute_admitted [OF g R] run r a
  have res: "res = Inl (RetryError
                      (Error (''Failed after '' @ string_of_nat ?k @ '' retries: ''
                              @ message (last (thrown w'))))
                      (?k + 1) (date_now P w' - date_now P w))"
    and w': "w' = world fr"
    by auto
  have "Error (''Failed after '' @ string_of_nat ?k @ '' retries: '' @ message e) \<noteq> e" for e
    by (cases e) simp_all
  with res n w' show ?thesis by simp
qed

theorem retry_error_carries_retrier_error_witness:
  "fst (numbered_boom \<lparr>sim_clock = 3014, sim_calls = 2\<rparr>) = Inl (Error ''boom 3'') \<and>
   RetryMechanism_execute sim_platform
     (RetryMechanism_new
        \<lparr>opt_retry = Some (empty_retry_options\<lparr>opt_maxRetries := Some 2\<rparr>),
         opt_circuitBreaker = None\<rparr> [])
     numbered_boom () sim_start
     = (Inl (RetryError (Error ''Failed after 2 retries: boom 3'') 3 3021),
        \<lparr>retrier = \<lparr>baseDelay = 1000, maxDelay = 30000, maxRetries = 2, jitter = True\<rparr>,
         circuitBreaker =
           \<lparr>failureThreshold = 5, resetTimeout = 60000, failures = 1, state = CLOSED,
            lastFailureTime = Some 3021\<rparr>,
         logger =
           [(logger_error,
             \<lparr>event = ''retry_failure'', event_context = (), event_attempts = 1,
              event_duration = None, event_error = Some ''boom 1''\<rparr>),
            (logger_error,
             \<lparr>event = ''retry_failure'', event_context = (), event_attempts = 2,
              event_duration = None, event_error = Some ''boom 2''\<rparr>),
            (logger_error,
             \<lparr>event = ''retry_failure'', event_context = (), event_attempts = 3,
              event_duration = None, event_error = Some ''boom 3''\<rparr>)]\<rparr>,
        \<lparr>sim_clock = 3021, sim_calls = 3\<rparr>) \<and>
   last (sim_thrown \<lparr>sim_clock = 3021, sim_calls = 3\<rparr>) = Error ''boom 3'' \<and>
   RetryMechanism_execute sim_platform
        \<lparr>retrier = \<lparr>baseDelay = 1000, maxDelay = 30000, maxRetries = 1, jitter = True\<rparr>,
         circuitBreaker =
           \<lparr>failureThreshold = 2, resetTimeout = 60000, failures = 2, state = OPEN,
            lastFailureTime = Some 2028\<rparr>,
         logger =
           []\<rparr>
     numbered_boom () \<lparr>sim_clock = 62028, sim_calls = 4\<rparr>
     = (Inl (RetryError (Error ''Failed after 1 retries: boom 6'') 2 1014),
        \<lparr>retrier = \<lparr>baseDelay = 1000, maxDelay = 30000, maxRetries = 1, jitter = True\<rparr>,
         circuitBreaker =
           \<lparr>failureThreshold = 2, resetTimeout = 60000, failures = 3, state = OPEN,
            lastFailureTime = Some 63042\<rparr>,
         logger =
           [(logger_error,
             \<lparr>event = ''retry_failure'', event_context = (), event_attempts = 1,
              event_duration = None, event_error = Some ''boom 5''\<rparr>),
            (logger_error,
             \<lparr>event = ''retry_failure'', event_context = (), event_attempts = 2,
              event_duration = None, event_error = Some ''boom 6''\<rparr>)]\<rparr>,
        \<lparr>sim_clock = 63042, sim_calls = 6\<rparr>) \<and>
   last (sim_thrown \<lparr>sim_clock = 63042, sim_calls = 6\<rparr>) = Error ''boom 6''"
proof -
  have op: "\<forall>w. isl (fst (numbered_boom w)) \<and>
                sim_thrown (snd (numbered_boom w))
                  = sim_thrown w @ [projl (fst (numbered_boom w))]"
    by (simp add: numbered_boom_def sim_thrown_def)
  have rnd: "\<forall>w. sim_thrown (snd (math_random sim_platform w)) = sim_thrown w"
    by (simp add: sim_platform_def)
  have tmo: "\<forall>ms w. sim_thrown (set_timeout sim_platform ms w) = sim_thrown w"
    by (simp add: sim_platform_def sim_thrown_def)
  have run1: "RetryMechanism_execute sim_platform
     (RetryMechanism_new
        \<lparr>opt_retry = Some (empty_retry_options\<lparr>opt_maxRetries := Some 2\<rparr>),
         opt_circuitBreaker = None\<rparr> [])
     numbered_boom () sim_start
     = (Inl (RetryError (Error ''Failed after 2 retries: boom 3'') 3 3021),
        \<lparr>retrier = \<lparr>baseDelay = 1000, maxDelay = 30000, maxRetries = 2, jitter = True\<rparr>,
         circuitBreaker =
           \<lparr>failureThreshold = 5, resetTimeout = 60000, failures = 1, state = CLOSED,
            lastFailureTime = Some 3021\<rparr>,
         logger =
           [(logger_error,
             \<lparr>event = ''retry_failure'', event_context = (), event_attempts = 1,
              event_duration = None, event_error = Some ''boom 1''\<rparr>),
            (logger_error,
             \<lparr>event = ''retry_failure'', event_context = (), event_attempts = 2,
              event_duration = None, event_error = Some ''boom 2''\<rparr>),
            (logger_error,
             \<lparr>event = ''retry_failure'', event_context = (), event_attempts = 3,
              event_duration = None, event_error = Some ''boom 3''\<rparr>)]\<rparr>,
        \<lparr>sim_clock = 3021, sim_calls = 3\<rparr>)"
    by (simp add: RetryMechanism_execute_def RetryMechanism_new_def ExponentialBackoffRetry_new_def
        CircuitBreaker_new_def CircuitBreaker_execute_def CircuitBreaker_gate_def
        ExponentialBackoffRetry_execute_def ExponentialBackoffRetry_loop.simps calculateDelay_def
        wait_def attempt_def logFailure_def logSuccess_def in_frame_def or_number_def
        or_boolean_def empty_retry_options_def empty_circuit_breaker_options_def
        string_of_nat.simps sim_platform_def sim_start_def numbered_boom_def)
  have adm1: "state (circuitBreaker (RetryMechanism_new
        \<lparr>opt_retry = Some (empty_retry_options\<lparr>opt_maxRetries := Some 2\<rparr>),
         opt_circuitBreaker = None\<rparr> [])) = OPEN \<longrightarrow>
      resetTimeout (circuitBreaker (RetryMechanism_new
        \<lparr>opt_retry = Some (empty_retry_options\<lparr>opt_maxRetries := Some 2\<rparr>),
         opt_circuitBreaker = None\<rparr> []))
        \<le> date_now sim_platform sim_start
            - (case lastFailureTime (circuitBreaker (RetryMechanism_new
        \<lparr>opt_retry = Some (empty_retry_options\<lparr>opt_maxRetries := Some 2\<rparr>),
         opt_circuitBreaker = None\<rparr> [])) of
                 None \<Rightarrow> 0 | Some t \<Rightarrow> t)"
    by (simp add: RetryMechanism_new_def CircuitBreaker_new_def)
  have run2: "RetryMechanism_execute sim_platform
        \<lparr>retrier = \<lparr>baseDelay = 1000, maxDelay = 30000, maxRetries = 1, jitter = True\<rparr>,
         circuitBreaker =
           \<lparr>failureThreshold = 2, resetTimeout = 60000, failures = 2, state = OPEN,
            lastFailureTime = Some 2028\<rparr>,
         logger =
           []\<rparr>
     numbered_boom () \<lparr>sim_clock = 62028, sim_calls = 4\<rparr>
     = (Inl (RetryError (Error ''Failed after 1 retries: boom 6'') 2 1014),
        \<lparr>retrier = \<lparr>baseDelay = 1000, maxDelay = 30000, maxRetries = 1, jitter = True\<rparr>,
         circuitBreaker =
           \<lparr>failureThreshold = 2, resetTimeout = 60000, failures = 3, state = OPEN,
            lastFailureTime = Some 63042\<rparr>,
         logger =
           [(logger_error,
             \<lparr>event = ''retry_failure'', event_context = (), event_attempts = 1,
              event_duration = None, event_error = Some ''boom 5''\<rparr>),
            (logger_error,
             \<lparr>event = ''retry_failure'', event_context = (), event_attempts = 2,
              event_duration = None, event_error = Some ''boom 6''\<rparr>)]\<rparr>,
        \<lparr>sim_clock = 63042, sim_calls = 6\<rparr>)"
    by (simp add: RetryMechanism_execute_def RetryMechanism_new_def ExponentialBackoffRetry_new_def
        CircuitBreaker_new_def CircuitBreaker_execute_def CircuitBreaker_gate_def
        ExponentialBackoffRetry_execute_def ExponentialBackoffRetry_loop.simps calculateDelay_def
        wait_def attempt_def logFailure_def logSuccess_def in_frame_def or_number_def
        or_boolean_def empty_retry_options_def empty_circuit_breaker_options_def
        string_of_nat.simps sim_platform_def sim_start_def numbered_boom_def)
  have adm2: "state (circuitBreaker
        \<lparr>retrier = \<lparr>baseDelay = 1000, maxDelay = 30000, maxRetries = 1, jitter = True\<rparr>,
         circuitBreaker =
           \<lparr>failureThreshold = 2, resetTimeout = 60000, failures = 2, state = OPEN,
            lastFailureTime = Some 2028\<rparr>,
         logger =
           []\<rparr>) = OPEN \<longrightarrow>
      resetTimeout (circuitBreaker
        \<lparr>retrier = \<lparr>baseDelay = 1000, maxDelay = 30000, maxRetries = 1, jitter = True\<rparr>,
         circuitBreaker =
           \<lparr>failureThreshold = 2, resetTimeout = 60000, failures = 2, state = OPEN,
            lastFailureTime = Some 2028\<rparr>,
         logger =
           []\<rparr>)
        \<le> date_now sim_platform \<lparr>sim_clock = 62028, sim_calls = 4\<rparr>
            - (case lastFailureTime (circuitBreaker
        \<lparr>retrier = \<lparr>baseDelay = 1000, maxDelay = 30000, maxRetries = 1, jitter = True\<rparr>,
         circuitBreaker =
           \<lparr>failureThreshold = 2, resetTimeout = 60000, failures = 2, state = OPEN,
            lastFailureTime = Some 2028\<rparr>,
         logger =
           []\<rparr>) of
                 None \<Rightarrow> 0 | Some t \<Rightarrow> t)"
    by (simp add: sim_platform_def)
  have l1: "last (sim_thrown \<lparr>sim_clock = 3021, sim_calls = 3\<rparr>) = Error ''boom 3''"
    and l2: "last (sim_thrown \<lparr>sim_clock = 63042, sim_calls = 6\<rparr>) = Error ''boom 6''"
    and f3: "fst (numbered_boom \<lparr>sim_clock = 3014, sim_calls = 2\<rparr>) = Inl (Error ''boom 3'')"
    by code_simp+
  from retry_error_carries_retrier_error [OF op rnd tmo adm1 run1]
    retry_error_carries_retrier_error [OF op rnd tmo adm2 run2]
    run1 run2 l1 l2 f3
  show ?thesis by simp
qed

text \<open>
  Claim C6 as the specification states it: \<open>originalError\<close> would be the last error
  thrown by the operation. With \<open>maxRetries = 2\<close> and an operation that always throws
  \<open>Error "boom"\<close>, the third and last call included, \<open>originalError\<close> is another error,
  with another message.
\<close>

theorem retry_error_originalError_is_not_operation_error:
  "fst (always_boom \<lparr>sim_clock = 3014, sim_calls = 2\<rparr>) = Inl (Error ''boom'') \<and>
   originalError (projl (fst (RetryMechanism_execute sim_platform
     (RetryMechanism_new
        \<lparr>opt_retry = Some (empty_retry_options\<lparr>opt_maxRetries := Some 2\<rparr>),
         opt_circuitBreaker = None\<rparr> [])
     always_boom () sim_start)))
     = Error ''Failed after 2 retries: boom'' \<and>
   originalError (projl (fst (RetryMechanism_execute sim_platform
     (RetryMechanism_new
        \<lparr>opt_retry = Some (empty_retry_options\<lparr>opt_maxRetries := Some 2\<rparr>),
         opt_circuitBreaker = None\<rparr> [])
     always_boom () sim_start)))
     \<noteq> Error ''boom''"
  by (simp add: RetryMechanism_execute_def RetryMechanism_new_def ExponentialBackoffRetry_new_def
        CircuitBreaker_new_def CircuitBreaker_execute_def CircuitBreaker_gate_def
        ExponentialBackoffRetry_execute_def ExponentialBackoffRetry_loop.simps calculateDelay_def
        wait_def attempt_def logFailure_def in_frame_def or_number_def or_boolean_def
        empty_retry_options_def empty_circuit_breaker_options_def string_of_nat.simps
        sim_platform_def sim_start_def always_boom_def)

text \<open>
  Claim C8, as the code has it, for an operation that fails with \<open>Error\<close> objects. An
  attempt that throws appends one \<open>retry_failure\<close> event (through \<open>logger.error\<close>),
  with the number of the attempt and the message of the error, inside the attempt,
  before the retrier sees the error; an attempt that returns appends one
  \<open>retry_success\<close> event (through \<open>logger.info\<close>). One call of \<open>execute\<close> appends
  exactly these, in the order of the attempts, numbered from 1: \<open>n\<close> failure events
  and then, if the call returns, the success event, where the operation has been
  called \<open>n\<close> times, or \<open>n + 1\<close> times if the call returns (\<open>calls\<close> is any counter of
  the state that each call of the operation increments and the host leaves alone).
  When the call throws, \<open>n\<close> is also the number of attempts the \<open>RetryError\<close>
  reports: neither exhaustion nor an open circuit adds an event.
\<close>

theorem logged_events_one_per_attempt:
  assumes cnt: "\<forall>w. calls (snd (fn w)) = calls w + (1::nat)"
    and rnd: "\<forall>w. calls (snd (math_random P w)) = calls w"
    and tmo: "\<forall>ms w. calls (set_timeout P ms w) = calls w"
    and run: "RetryMechanism_execute P this fn ctx w = (res, this', w')"
  shows "(isl (fst (fn (world fr))) \<longrightarrow>
            logger_var (snd (attempt P fn ctx t fr)) = logger_var fr @
              [(logger_error,
                \<lparr>event = ''retry_failure'', event_context = ctx,
                 event_attempts = attempts_var fr + 1, event_duration = None,
                 event_error = Some (message (projl (fst (fn (world fr)))))\<rparr>)]) \<and>
         (\<not> isl (fst (fn (world fr'))) \<longrightarrow>
            logger_var (snd (attempt P fn ctx t fr')) = logger_var fr' @
              [(logger_info,
                \<lparr>event = ''retry_success'', event_context = ctx,
                 event_attempts = attempts_var fr' + 1,
                 event_duration = Some (date_now P (snd (fn (world fr'))) - t),
                 event_error = None\<rparr>)]) \<and>
         (\<exists>n. map (\<lambda>c. (fst c, event (snd c), event_attempts (snd c))) (logger this')
                 = map (\<lambda>c. (fst c, event (snd c), event_attempts (snd c))) (logger this)
                     @ map (\<lambda>i. (logger_error, ''retry_failure'', i)) [1..<n + 1]
                     @ (if isl res then [] else [(logger_info, ''retry_success'', n + 1)]) \<and>
               calls w' = calls w + n + (if isl res then 0 else 1) \<and>
               (isl res \<longrightarrow> attempts (projl res) = n))"
proof -
  let ?fr0 = "\<lparr>attempts_var = 0, logger_var = logger this, world = w\<rparr>"
  let ?at = "attempt P fn ctx (date_now P w)"
  let ?R = "ExponentialBackoffRetry_loop (in_frame P) (retrier this) ?at 0 ?fr0"
  let ?tr = "\<lambda>fr. map (\<lambda>c. (fst c, event (snd c), event_attempts (snd c))) (logger_var fr)"
  let ?x = "\<lambda>i::nat. (logger_error, ''retry_failure'', i)"
  let ?y = "\<lambda>i::nat. (logger_info, ''retry_success'', i)"
  have run_level: "\<exists>n. map (\<lambda>c. (fst c, event (snd c), event_attempts (snd c))) (logger this')
                 = map (\<lambda>c. (fst c, event (snd c), event_attempts (snd c))) (logger this)
                     @ map ?x [1..<n + 1]
                     @ (if isl res then [] else [?y (n + 1)]) \<and>
               calls w' = calls w + n + (if isl res then 0 else 1) \<and>
               (isl res \<longrightarrow> attempts (projl res) = n)"
  proof (cases "CircuitBreaker_gate (in_frame P) (circuitBreaker this) ?fr0")
    case (Inl err)
    from RetryMechanism_execute_rejected [OF Inl, of fn ctx] run
    have "res = Inl (RetryError err 0 0)" "this' = this" "w' = w" by simp_all
    then have "map (\<lambda>c. (fst c, event (snd c), event_attempts (snd c))) (logger this')
                 = map (\<lambda>c. (fst c, event (snd c), event_attempts (snd c))) (logger this)
                     @ map ?x [1..<0 + 1]
                     @ (if isl res then [] else [?y (0 + 1)]) \<and>
               calls w' = calls w + 0 + (if isl res then 0 else 1) \<and>
               (isl res \<longrightarrow> attempts (projl res) = 0)"
      by simp
    then show ?thesis by (rule exI)
  next
    case (Inr cb1)
    obtain r fr where R: "?R = (r, fr)" by (cases ?R)
    have "\<exists>n. ?tr (snd ?R) = ?tr ?fr0 @ map ?x [attempts_var ?fr0 + 1 ..< attempts_var ?fr0 + n + 1]
                  @ (if isl (fst ?R) then [] else [?y (attempts_var ?fr0 + n + 1)]) \<and>
              attempts_var (snd ?R) = attempts_var ?fr0 + n + (if isl (fst ?R) then 0 else 1)"
      by (rule loop_numbered_events)
         (simp_all add: attempt_logger_failure attempt_logger_success)
    then obtain n where n0:
      "?tr (snd ?R) = ?tr ?fr0 @ map ?x [attempts_var ?fr0 + 1 ..< attempts_var ?fr0 + n + 1]
                  @ (if isl (fst ?R) then [] else [?y (attempts_var ?fr0 + n + 1)])"
      "attempts_var (snd ?R) = attempts_var ?fr0 + n + (if isl (fst ?R) then 0 else 1)"
      by blast
    have n: "?tr fr = ?tr ?fr0 @ map ?x [1..<n + 1] @ (if isl r then [] else [?y (n + 1)])"
      "attempts_var fr = n + (if isl r then 0 else 1)"
      using n0 R by (simp_all del: upt_Suc)
    have "calls (world (snd ?R)) = calls w + attempts_var (snd ?R)"
      by (rule loop_invariant [where I = "\<lambda>fr. calls (world fr) = calls w + attempts_var fr"])
         (simp_all add: cnt rnd tmo)
    then have c: "calls (world fr) = calls w + attempts_var fr" using R by simp
    from RetryMechanism_execute_admitted [OF Inr R] run
    have res: "res = (case r of Inr result \<Rightarrow> Inr result
                      | Inl err \<Rightarrow> Inl (RetryError err (attempts_var fr)
                                          (date_now P (world fr) - date_now P w)))"
      and lg: "logger this' = logger_var fr" and w': "w' = world fr"
      by auto
    have "map (\<lambda>c. (fst c, event (snd c), event_attempts (snd c))) (logger this')
                 = map (\<lambda>c. (fst c, event (snd c), event_attempts (snd c))) (logger this)
                     @ map ?x [1..<n + 1]
                     @ (if isl res then [] else [?y (n + 1)]) \<and>
               calls w' = calls w + n + (if isl res then 0 else 1) \<and>
               (isl res \<longrightarrow> attempts (projl res) = n)"
      using n res lg w' c by (cases r) (simp_all del: upt_Suc)
    then show ?thesis by (rule exI)
  qed
  have f: "isl (fst (fn (world fr))) \<Longrightarrow>
            logger_var (snd (attempt P fn ctx t fr)) = logger_var fr @
              [(logger_error,
                \<lparr>event = ''retry_failure'', event_context = ctx,
                 event_attempts = attempts_var fr + 1, event_duration = None,
                 event_error = Some (message (projl (fst (fn (world fr)))))\<rparr>)]"
    by (rule attempt_logger_failure)
  have s: "\<not> isl (fst (fn (world fr'))) \<Longrightarrow>
            logger_var (snd (attempt P fn ctx t fr')) = logger_var fr' @
              [(logger_info,
                \<lparr>event = ''retry_success'', event_context = ctx,
                 event_attempts = attempts_var fr' + 1,
                 event_duration = Some (date_now P (snd (fn (world fr'))) - t),
                 event_error = None\<rparr>)]"
    by (rule attempt_logger_success)
  from f s run_level show ?thesis by blast
qed

theorem logged_events_one_per_attempt_witness:
  "RetryMechanism_execute sim_platform
     (RetryMechanism_new
        \<lparr>opt_retry = None, opt_circuitBreaker = None\<rparr> [])
     fails_twice_then_ok () sim_start
     = (Inr (),
        \<lparr>retrier = \<lparr>baseDelay = 1000, maxDelay = 30000, maxRetries = 5, jitter = True\<rparr>,
         circuitBreaker =
           \<lparr>failureThreshold = 5, resetTimeout = 60000, failures = 0, state = CLOSED,
            lastFailureTime = None\<rparr>,
         logger =
           [(logger_error,
             \<lparr>event = ''retry_failure'', event_context = (), event_attempts = 1,
              event_duration = None, event_error = Some ''boom''\<rparr>),
            (logger_error,
             \<lparr>event = ''retry_failure'', event_context = (), event_attempts = 2,
              event_duration = None, event_error = Some ''boom''\<rparr>),
            (logger_info,
             \<lparr>event = ''retry_success'', event_context = (), event_attempts = 3,
              event_duration = Some 3021, event_error = None\<rparr>)]\<rparr>,
        \<lparr>sim_clock = 3021, sim_calls = 3\<rparr>) \<and>
   RetryMechanism_execute sim_platform
     (RetryMechanism_new
        \<lparr>opt_retry = Some (empty_retry_options\<lparr>opt_maxRetries := Some 2\<rparr>),
         opt_circuitBreaker = None\<rparr> [])
     always_boom () sim_start
     = (Inl (RetryError (Error ''Failed after 2 retries: boom'') 3 3021),
        \<lparr>retrier = \<lparr>baseDelay = 1000, maxDelay = 30000, maxRetries = 2, jitter = True\<rparr>,
         circuitBreaker =
           \<lparr>failureThreshold = 5, resetTimeout = 60000, failures = 1, state = CLOSED,
            lastFailureTime = Some 3021\<rparr>,
         logger =
           [(logger_error,
             \<lparr>event = ''retry_failure'', event_context = (), event_attempts = 1,
              event_duration = None, event_error = Some ''boom''\<rparr>),
            (logger_error,
             \<lparr>event = ''retry_failure'', event_context = (), event_attempts = 2,
              event_duration = None, event_error = Some ''boom''\<rparr>),
            (logger_error,
             \<lparr>event = ''retry_failure'', event_context = (), event_attempts = 3,
              event_duration = None, event_error = Some ''boom''\<rparr>)]\<rparr>,
        \<lparr>sim_clock = 3021, sim_calls = 3\<rparr>) \<and>
   logger_var (snd (attempt sim_platform fails_twice_then_ok () 0
     \<lparr>attempts_var = 0, logger_var = [], world = sim_start\<rparr>))
     = [(logger_error,
         \<lparr>event = ''retry_failure'', event_context = (), event_attempts = 1,
          event_duration = None, event_error = Some ''boom''\<rparr>)] \<and>
   logger_var (snd (attempt sim_platform fails_twice_then_ok () 0
     \<lparr>attempts_var = 2, logger_var = [],
      world = \<lparr>sim_clock = 3014, sim_calls = 2\<rparr>\<rparr>))
     = [(logger_info,
         \<lparr>event = ''retry_success'', event_context = (), event_attempts = 3,
          event_duration = Some 3021, event_error = None\<rparr>)] \<and>
   sim_calls \<lparr>sim_clock = 3021, sim_calls = 3\<rparr> = sim_calls sim_start + 2 + 1 \<and>
   attempts (RetryError (Error ''Failed after 2 retries: boom'') 3 3021) = 3"
proof -
  have cnt1: "\<forall>w. sim_calls (snd (fails_twice_then_ok w)) = sim_calls w + 1"
    and cnt2: "\<forall>w. sim_calls (snd (always_boom w)) = sim_calls w + 1"
    by (simp_all add: fails_twice_then_ok_def always_boom_def)
  have rnd: "\<forall>w. sim_calls (snd (math_random sim_platform w)) = sim_calls w"
    and tmo: "\<forall>ms w. sim_calls (set_timeout sim_platform ms w) = sim_calls w"
    by (simp_all add: sim_platform_def)
  have run1: "RetryMechanism_execute sim_platform
     (RetryMechanism_new
        \<lparr>opt_retry = None, opt_circuitBreaker = None\<rparr> [])
     fails_twice_then_ok () sim_start
     = (Inr (),
        \<lparr>retrier = \<lparr>baseDelay = 1000, maxDelay = 30000, maxRetries = 5, jitter = True\<rparr>,
         circuitBreaker =
           \<lparr>failureThreshold = 5, resetTimeout = 60000, failures = 0, state = CLOSED,
            lastFailureTime = None\<rparr>,
         logger =
           [(logger_error,
             \<lparr>event = ''retry_failure'', event_context = (), event_attempts = 1,
              event_duration = None, event_error = Some ''boom''\<rparr>),
            (logger_error,
             \<lparr>event = ''retry_failure'', event_context = (), event_attempts = 2,
              event_duration = None, event_error = Some ''boom''\<rparr>),
            (logger_info,
             \<lparr>event = ''retry_success'', event_context = (), event_attempts = 3,
              event_duration = Some 3021, event_error = None\<rparr>)]\<rparr>,
        \<lparr>sim_clock = 3021, sim_calls = 3\<rparr>)"
    by (simp add: RetryMechanism_execute_def RetryMechanism_new_def ExponentialBackoffRetry_new_def
        CircuitBreaker_new_def CircuitBreaker_execute_def CircuitBreaker_gate_def
        ExponentialBackoffRetry_execute_def ExponentialBackoffRetry_loop.simps calculateDelay_def
        wait_def attempt_def logFailure_def logSuccess_def in_frame_def or_number_def
        or_boolean_def empty_retry_options_def empty_circuit_breaker_options_def
        string_of_nat.simps sim_platform_def sim_start_def fails_twice_then_ok_def)
  have run2: "RetryMechanism_execute sim_platform
     (RetryMechanism_new
        \<lparr>opt_retry = Some (empty_retry_options\<lparr>opt_maxRetries := Some 2\<rparr>),
         opt_circuitBreaker = None\<rparr> [])
     always_boom () sim_start
     = (Inl (RetryError (Error ''Failed after 2 retries: boom'') 3 3021),
        \<lparr>retrier = \<lparr>baseDelay = 1000, maxDelay = 30000, maxRetries = 2, jitter = True\<rparr>,
         circuitBreaker =
           \<lparr>failureThreshold = 5, resetTimeout = 60000, failures = 1, state = CLOSED,
            lastFailureTime = Some 3021\<rparr>,
         logger =
           [(logger_error,
             \<lparr>event = ''retry_failure'', event_context = (), event_attempts = 1,
              event_duration = None, event_error = Some ''boom''\<rparr>),
            (logger_error,
             \<lparr>event = ''retry_failure'', event_context = (), event_attempts = 2,
              event_duration = None, event_error = Some ''boom''\<rparr>),
            (logger_error,
             \<lparr>event = ''retry_failure'', event_context = (), event_attempts = 3,
              event_duration = None, event_error = Some ''boom''\<rparr>)]\<rparr>,
        \<lparr>sim_clock = 3021, sim_calls = 3\<rparr>)"
    by (simp add: RetryMechanism_execute_def RetryMechanism_new_def ExponentialBackoffRetry_new_def
        CircuitBreaker_new_def CircuitBreaker_execute_def CircuitBreaker_gate_def
        ExponentialBackoffRetry_execute_def ExponentialBackoffRetry_loop.simps calculateDelay_def
        wait_def attempt_def logFailure_def logSuccess_def in_frame_def or_number_def
        or_boolean_def empty_retry_options_def empty_circuit_breaker_options_def
        string_of_nat.simps sim_platform_def sim_start_def always_boom_def)
  from logged_events_one_per_attempt
      [OF cnt1 rnd tmo run1,
       where fr = "\<lparr>attempts_var = 0, logger_var = [], world = sim_start\<rparr>"
         and fr' = "\<lparr>attempts_var = 2, logger_var = [],
                     world = \<lparr>sim_clock = 3014, sim_calls = 2\<rparr>\<rparr>"
         and t = 0]
    logged_events_one_per_attempt [OF cnt2 rnd tmo run2] run1 run2
  show ?thesis
    by (simp add: sim_start_def sim_platform_def fails_twice_then_ok_def)
qed

text \<open>
  Claim C8 as the specification states it names the events \<open>attempt_failure\<close>,
  \<open>retry_success\<close> and \<open>retry_exhausted\<close>. The event logged for a failing attempt is
  named \<open>retry_failure\<close>, which is none of the three.
\<close>

theorem logged_failure_event_is_named_retry_failure:
  "event (snd (hd (logger (fst (snd (RetryMechanism_execute sim_platform
        (RetryMechanism_new
           \<lparr>opt_retry = Some (empty_retry_options\<lparr>opt_maxRetries := Some 2\<rparr>),
            opt_circuitBreaker = None\<rparr> [])
        always_boom () sim_start))))))
     = ''retry_failure'' \<and>
   event (snd (hd (logger (fst (snd (RetryMechanism_execute sim_platform
        (RetryMechanism_new
           \<lparr>opt_retry = Some (empty_retry_options\<lparr>opt_maxRetries := Some 2\<rparr>),
            opt_circuitBreaker = None\<rparr> [])
        always_boom () sim_start))))))
     \<notin> {''attempt_failure'', ''retry_success'', ''retry_exhausted''} \<and>
   length (logger (fst (snd (RetryMechanism_execute sim_platform
        (RetryMechanism_new
           \<lparr>opt_retry = Some (empty_retry_options\<lparr>opt_maxRetries := Some 2\<rparr>),
            opt_circuitBreaker = None\<rparr> [])
        always_boom () sim_start)))) = 3"
  by (simp add: RetryMechanism_execute_def RetryMechanism_new_def ExponentialBackoffRetry_new_def
        CircuitBreaker_new_def CircuitBreaker_execute_def CircuitBreaker_gate_def
        ExponentialBackoffRetry_execute_def ExponentialBackoffRetry_loop.simps calculateDelay_def
        wait_def attempt_def logFailure_def in_frame_def or_number_def or_boolean_def
        empty_retry_options_def empty_circuit_breaker_options_def string_of_nat.simps
        sim_platform_def sim_start_def always_boom_def)

end
